theory Spec2Isabelle
  imports Complex_Main
begin

section \<open>JavaScript numbers and values\<close>

text \<open>
  The histogram engine of \<^verbatim>\<open>value/numeric.js\<close> computes on JavaScript numbers. A number
  is \<open>NaN\<close>, one of the two infinities, or a finite double. Finite doubles are modelled
  as exact reals: rounding, overflow of a finite result to an infinity and the sign of
  zero are outside this model. The operations below follow the language: every
  comparison with \<open>NaN\<close> is false, and arithmetic with \<open>NaN\<close> gives \<open>NaN\<close>.
\<close>

datatype num = NaN | NInf | Fin real | PInf

text \<open>\<^verbatim>\<open>a < b\<close>\<close>

fun num_lt :: "num \<Rightarrow> num \<Rightarrow> bool" where
  "num_lt NaN b = False"
| "num_lt a NaN = False"
| "num_lt a NInf = False"
| "num_lt NInf b = True"
| "num_lt PInf b = False"
| "num_lt (Fin x) PInf = True"
| "num_lt (Fin x) (Fin y) = (x < y)"

text \<open>\<^verbatim>\<open>a === b\<close> on numbers\<close>

definition num_seq :: "num \<Rightarrow> num \<Rightarrow> bool" where
  "num_seq a b = (a \<noteq> NaN \<and> a = b)"

text \<open>\<^verbatim>\<open>a <= b\<close>, and \<^verbatim>\<open>a >= b\<close> is \<open>num_le b a\<close>\<close>

definition num_le :: "num \<Rightarrow> num \<Rightarrow> bool" where
  "num_le a b = (num_lt a b \<or> num_seq a b)"

definition isNaN :: "num \<Rightarrow> bool" where
  "isNaN a = (a = NaN)"

fun num_neg :: "num \<Rightarrow> num" where
  "num_neg NaN = NaN"
| "num_neg NInf = PInf"
| "num_neg PInf = NInf"
| "num_neg (Fin x) = Fin (- x)"

fun num_add :: "num \<Rightarrow> num \<Rightarrow> num" where
  "num_add NaN b = NaN"
| "num_add a NaN = NaN"
| "num_add (Fin x) (Fin y) = Fin (x + y)"
| "num_add PInf NInf = NaN"
| "num_add NInf PInf = NaN"
| "num_add PInf b = PInf"
| "num_add NInf b = NInf"
| "num_add (Fin x) b = b"

definition num_sub :: "num \<Rightarrow> num \<Rightarrow> num" where
  "num_sub a b = num_add a (num_neg b)"

definition num_mul :: "num \<Rightarrow> num \<Rightarrow> num" where
  "num_mul a b =
     (case (a, b) of
        (Fin x, Fin y) \<Rightarrow> Fin (x * y)
      | _ \<Rightarrow> if a = NaN \<or> b = NaN \<or> a = Fin 0 \<or> b = Fin 0 then NaN
             else if num_lt (Fin 0) a = num_lt (Fin 0) b then PInf else NInf)"

text \<open>Division; a zero divisor counts as \<open>+0\<close>.\<close>

definition num_div :: "num \<Rightarrow> num \<Rightarrow> num" where
  "num_div a b =
     (case (a, b) of
        (Fin x, Fin y) \<Rightarrow>
          if y \<noteq> 0 then Fin (x / y)
          else if x = 0 then NaN else if 0 < x then PInf else NInf
      | (Fin x, _) \<Rightarrow> if b = NaN then NaN else Fin 0
      | (_, Fin y) \<Rightarrow>
          if a = NaN then NaN
          else if (a = PInf) = (0 \<le> y) then PInf else NInf
      | _ \<Rightarrow> NaN)"


definition Math_max :: "num \<Rightarrow> num \<Rightarrow> num" where
  "Math_max a b = (if a = NaN \<or> b = NaN then NaN else if num_lt a b then b else a)"

definition Math_min :: "num \<Rightarrow> num \<Rightarrow> num" where
  "Math_min a b = (if a = NaN \<or> b = NaN then NaN else if num_lt b a then b else a)"

text \<open>\<^verbatim>\<open>Number.MAX_VALUE\<close>, the largest finite double: \<open>(2 - 2\<^sup>-\<^sup>5\<^sup>2) \<sqdot> 2\<^sup>1\<^sup>0\<^sup>2\<^sup>3\<close>.\<close>

definition MAX_VALUE :: real where
  "MAX_VALUE = 2 ^ 1024 - 2 ^ 971"

text \<open>
  The \<^verbatim>\<open>value\<close> field of a serialized scalar holds a number or a string.
\<close>

datatype jsval = Num num | Str string

text \<open>
  \<^verbatim>\<open>opt || dflt\<close> for an optional number argument: an argument left out is
  \<^verbatim>\<open>undefined\<close>, and \<^verbatim>\<open>undefined\<close>, \<open>NaN\<close> and zero are falsy.
\<close>

fun orDefault :: "num option \<Rightarrow> num \<Rightarrow> num" where
  "orDefault None dflt = dflt"
| "orDefault (Some a) dflt = (if a = NaN \<or> a = Fin 0 then dflt else a)"

text \<open>A thrown \<^verbatim>\<open>Error\<close>, with its message.\<close>

datatype error = Error string

section \<open>Collaborators\<close>

text \<open>
  Units are the named singletons of \<^verbatim>\<open>unit.js\<close>; the engine compares them by identity
  and reads their improvement direction.
\<close>

datatype ImprovementDirection = DONT_CARE | BIGGER_IS_BETTER | SMALLER_IS_BETTER

record Unit =
  jsonName :: string
  improvementDirection :: ImprovementDirection

text \<open>
  Modelled from the spec: \<^verbatim>\<open>base/range.js\<close> is not part of the sources at hand. A range
  is a min/max pair with an emptiness flag; a fresh range is empty, \<^verbatim>\<open>addValue\<close>
  widens it by value, and two ranges are equal when both are empty or neither is and
  their bounds are identical. The bounds of an empty range are undefined in the code
  and are never read while it is empty; they are held as \<open>NaN\<close> here.
\<close>

record Range =
  isEmpty :: bool
  range_min :: num
  range_max :: num

definition Range_new :: Range where
  "Range_new = \<lparr>isEmpty = True, range_min = NaN, range_max = NaN\<rparr>"

definition fromExplicitRange :: "num \<Rightarrow> num \<Rightarrow> Range" where
  "fromExplicitRange lo hi = \<lparr>isEmpty = False, range_min = lo, range_max = hi\<rparr>"

definition addValue :: "Range \<Rightarrow> num \<Rightarrow> Range" where
  "addValue r v =
     (if isEmpty r then \<lparr>isEmpty = False, range_min = v, range_max = v\<rparr>
      else r\<lparr>range_max := Math_max (range_max r) v, range_min := Math_min (range_min r) v\<rparr>)"

definition Range_equals :: "Range \<Rightarrow> Range \<Rightarrow> bool" where
  "Range_equals r that =
     (if isEmpty r \<and> isEmpty that then True
      else if isEmpty r \<noteq> isEmpty that then False
      else num_seq (range_min r) (range_min that) \<and> num_seq (range_max r) (range_max that))"

definition center :: "Range \<Rightarrow> num" where
  "center r = num_mul (num_add (range_min r) (range_max r)) (Fin (1 / 2))"

text \<open>
  The reservoirs are filled by \<^verbatim>\<open>tr.b.Statistics.uniformlySampleStream\<close> and
  \<^verbatim>\<open>mergeSampledStreams\<close>, which draw random numbers; the running statistics, the
  Mann-Whitney U test and the payload of a diagnostic belong to other modules. They are
  parameters of the model: \<open>'d\<close> is a diagnostic, \<open>'s\<close> the running statistics,
  \<open>'g\<close> the state of the random source, which every sampling call takes and returns.
  The first list argument of a sampling function is the reservoir the code updates in
  place; the function returns its new contents.
\<close>

record ('d, 's, 'g) statistics =
  sampleDiagnostic :: "'g \<Rightarrow> 'd list \<Rightarrow> nat \<Rightarrow> 'd \<Rightarrow> nat \<Rightarrow> 'd list \<times> 'g"
  sampleValue :: "'g \<Rightarrow> num list \<Rightarrow> nat \<Rightarrow> num \<Rightarrow> num \<Rightarrow> num list \<times> 'g"
  mergeDiagnostics :: "'g \<Rightarrow> 'd list \<Rightarrow> nat \<Rightarrow> 'd list \<Rightarrow> nat \<Rightarrow> nat \<Rightarrow> 'd list \<times> 'g"
  mergeValues :: "'g \<Rightarrow> num list \<Rightarrow> nat \<Rightarrow> num list \<Rightarrow> nat \<Rightarrow> num \<Rightarrow> num list \<times> 'g"
  runningNew :: 's
  runningAdd :: "'s \<Rightarrow> num \<Rightarrow> 's"
  runningMerge :: "'s \<Rightarrow> 's \<Rightarrow> 's"
  mwuTest :: "num list \<Rightarrow> num list \<Rightarrow> num"

text \<open>\<^verbatim>\<open>tr.b.Statistics.mean\<close> of the two capacities in \<^verbatim>\<open>addNumeric\<close>\<close>

definition mean2 :: "num \<Rightarrow> num \<Rightarrow> num" where
  "mean2 a b = num_div (num_add a b) (Fin 2)"

definition MAX_DIAGNOSTICS :: nat where
  "MAX_DIAGNOSTICS = 16"

definition DEFAULT_ALPHA :: num where
  "DEFAULT_ALPHA = Fin (5 / 100)"

datatype Significance = SIG_DONT_CARE | INSIGNIFICANT | SIGNIFICANT

section \<open>Bins\<close>

text \<open>
  \<^verbatim>\<open>NumericBin\<close>: a range, a count and a reservoir of at most \<open>MAX_DIAGNOSTICS\<close>
  diagnostics. The back pointer \<^verbatim>\<open>parentNumeric\<close> is never read and is left out.
\<close>

record 'd NumericBin =
  bin_range :: Range
  count :: nat
  diagnostics :: "'d list"

definition NumericBin_new :: "Range \<Rightarrow> 'd NumericBin" where
  "NumericBin_new r = \<lparr>bin_range = r, count = 0, diagnostics = []\<rparr>"

text \<open>\<^verbatim>\<open>NumericBin.prototype.add\<close>\<close>

definition NumericBin_add ::
  "('d, 's, 'g) statistics \<Rightarrow> 'g \<Rightarrow> 'd NumericBin \<Rightarrow> 'd option \<Rightarrow> 'd NumericBin \<times> 'g" where
  "NumericBin_add env g b opt_diagnostic =
     (let b1 = b\<lparr>count := count b + 1\<rparr>
      in case opt_diagnostic of
           None \<Rightarrow> (b1, g)
         | Some d \<Rightarrow>
             (let (ds, g1) = sampleDiagnostic env g (diagnostics b1) (count b1) d MAX_DIAGNOSTICS
              in (b1\<lparr>diagnostics := ds\<rparr>, g1)))"

text \<open>
  \<^verbatim>\<open>NumericBin.prototype.addBin\<close>. A mutating operation that throws returns the error
  together with the state it leaves behind.
\<close>

definition addBin ::
  "('d, 's, 'g) statistics \<Rightarrow> 'g \<Rightarrow> 'd NumericBin \<Rightarrow> 'd NumericBin
    \<Rightarrow> (error \<times> 'd NumericBin \<times> 'g) + ('d NumericBin \<times> 'g)" where
  "addBin env g b other =
     (if \<not> Range_equals (bin_range b) (bin_range other)
      then Inl (Error ''Merging incompatible Numeric bins.'', b, g)
      else
        (let (ds, g1) = mergeDiagnostics env g (diagnostics b) (count b)
                          (diagnostics other) (count other) MAX_DIAGNOSTICS
         in Inr (b\<lparr>diagnostics := ds, count := count b + count other\<rparr>, g1)))"

section \<open>The histogram\<close>

text \<open>
  \<^verbatim>\<open>Numeric\<close>. A sample is a number, as \<^verbatim>\<open>buildFromSamples\<close> annotates it; a
  value that is not a number takes the same branch of \<^verbatim>\<open>add\<close> as \<open>NaN\<close> and is
  represented by it. In the code \<^verbatim>\<open>allBins\<close> is a second array holding the same bin objects
  as \<^verbatim>\<open>underflowBin\<close>, \<^verbatim>\<open>centralBins\<close> and \<^verbatim>\<open>overflowBin\<close>; here it is
  computed from the three fields, and a bin is updated through its index in it. The
  summary options play no part in the operations below and are left out.
\<close>

record ('d, 's) Numeric =
  unit :: Unit
  numeric_range :: Range
  numNans :: nat
  nanDiagnostics :: "'d list"
  running :: 's
  maxCount :: nat
  underflowBin :: "'d NumericBin"
  centralBins :: "'d NumericBin list"
  overflowBin :: "'d NumericBin"
  sampleValues :: "num list"
  maxNumSampleValues :: num

definition allBins :: "('d, 's) Numeric \<Rightarrow> 'd NumericBin list" where
  "allBins h = underflowBin h # centralBins h @ [overflowBin h]"

definition setBin :: "nat \<Rightarrow> 'd NumericBin \<Rightarrow> ('d, 's) Numeric \<Rightarrow> ('d, 's) Numeric" where
  "setBin i b h =
     (if i = 0 then h\<lparr>underflowBin := b\<rparr>
      else if i \<le> length (centralBins h) then h\<lparr>centralBins := (centralBins h)[i - 1 := b]\<rparr>
      else h\<lparr>overflowBin := b\<rparr>)"

text \<open>The constructor: the cached maximum is computed from the bins it is given.\<close>

definition Numeric_new ::
  "('d, 's, 'g) statistics \<Rightarrow> Unit \<Rightarrow> Range
    \<Rightarrow> 'd NumericBin \<Rightarrow> 'd NumericBin list \<Rightarrow> 'd NumericBin \<Rightarrow> ('d, 's) Numeric" where
  "Numeric_new env u r ub cbs ob =
     (let bins = ub # cbs @ [ob]
      in \<lparr>unit = u, numeric_range = r, numNans = 0, nanDiagnostics = [],
          running = runningNew env,
          maxCount = fold (\<lambda>bin m. if m < count bin then count bin else m) bins 0,
          underflowBin = ub, centralBins = cbs, overflowBin = ob,
          sampleValues = [],
          maxNumSampleValues = Fin (real (length bins * 10))\<rparr>)"

definition numValues :: "('d, 's) Numeric \<Rightarrow> nat" where
  "numValues h = sum_list (map count (allBins h))"

text \<open>
  Modelled from the spec: \<^verbatim>\<open>base/sorted_array_utils.js\<close> is not part of the sources at
  hand. \<^verbatim>\<open>findHighIndexInSortedArray\<close> with the comparator of \<^verbatim>\<open>getBinForValue\<close> finds the
  first bin whose \<^verbatim>\<open>range.max\<close> exceeds the value, and the length of the array when there
  is none.
\<close>

fun findHighIndexInSortedArray :: "'a list \<Rightarrow> ('a \<Rightarrow> bool) \<Rightarrow> nat" where
  "findHighIndexInSortedArray [] below = 0"
| "findHighIndexInSortedArray (x # xs) below =
     (if below x then 0 else Suc (findHighIndexInSortedArray xs below))"

text \<open>
  \<^verbatim>\<open>getBinForValue\<close>, as the index of the bin in \<^verbatim>\<open>allBins\<close>; the overflow bin is the last.
\<close>

definition getBinForValue :: "('d, 's) Numeric \<Rightarrow> num \<Rightarrow> nat" where
  "getBinForValue h v =
     (let binIndex = findHighIndexInSortedArray (allBins h)
                       (\<lambda>b. num_lt v (range_max (bin_range b)))
      in if binIndex < length (allBins h) then binIndex else length (allBins h) - 1)"

text \<open>\<^verbatim>\<open>Numeric.prototype.add\<close>\<close>

definition add ::
  "('d, 's, 'g) statistics \<Rightarrow> 'g \<Rightarrow> ('d, 's) Numeric \<Rightarrow> num \<Rightarrow> 'd option
    \<Rightarrow> ('d, 's) Numeric \<times> 'g" where
  "add env g h v opt_diagnostic =
     (let (h1, g1) =
            (if isNaN v
             then (let n = numNans h + 1
                   in case opt_diagnostic of
                        None \<Rightarrow> (h\<lparr>numNans := n\<rparr>, g)
                      | Some d \<Rightarrow>
                          (let (ds, g') = sampleDiagnostic env g (nanDiagnostics h) n d MAX_DIAGNOSTICS
                           in (h\<lparr>numNans := n, nanDiagnostics := ds\<rparr>, g')))
             else (let i = getBinForValue h v;
                       (bin, g') = NumericBin_add env g (allBins h ! i) opt_diagnostic;
                       h' = (setBin i bin h)\<lparr>running := runningAdd env (running h) v\<rparr>
                   in (if maxCount h' < count bin then h'\<lparr>maxCount := count bin\<rparr> else h', g')));
          (vs, g2) = sampleValue env g1 (sampleValues h1) (numValues h1 + numNans h1) v
                       (maxNumSampleValues h1)
      in (h1\<lparr>sampleValues := vs\<rparr>, g2))"

text \<open>
  \<^verbatim>\<open>Numeric.prototype.canAddNumeric\<close>. Its loop runs only after the two arrays of bins
  were found to have the same length.
\<close>

function canAddBins :: "'d NumericBin list \<Rightarrow> 'd NumericBin list \<Rightarrow> nat \<Rightarrow> bool" where
  "canAddBins bs os i =
     (if i < length bs
      then (if \<not> Range_equals (bin_range (bs ! i)) (bin_range (os ! i)) then False
            else canAddBins bs os (Suc i))
      else True)"
  by pat_completeness auto
termination
  by (relation "measure (\<lambda>(bs, os, i). length bs - i)") auto

definition canAddNumeric :: "('d, 's) Numeric \<Rightarrow> ('d, 's) Numeric \<Rightarrow> bool" where
  "canAddNumeric h other =
     (if \<not> Range_equals (numeric_range h) (numeric_range other) then False
      else if unit h \<noteq> unit other then False
      else if length (allBins h) \<noteq> length (allBins other) then False
      else canAddBins (allBins h) (allBins other) 0)"

text \<open>
  \<^verbatim>\<open>Numeric.prototype.addNumeric\<close>. The loop over the bins stops at the first
  \<^verbatim>\<open>addBin\<close> that throws and leaves the bins before it combined. Reading a bin of
  \<^verbatim>\<open>other\<close> past the end of its array is a \<^verbatim>\<open>TypeError\<close>.
\<close>

function addBins ::
  "('d, 's, 'g) statistics \<Rightarrow> 'g \<Rightarrow> ('d, 's) Numeric \<Rightarrow> ('d, 's) Numeric \<Rightarrow> nat
    \<Rightarrow> (error \<times> ('d, 's) Numeric \<times> 'g) + (('d, 's) Numeric \<times> 'g)" where
  "addBins env g h other i =
     (if i < length (allBins h)
      then (if \<not> i < length (allBins other) then Inl (Error ''TypeError'', h, g)
            else case addBin env g (allBins h ! i) (allBins other ! i) of
                   Inl (e, b, g') \<Rightarrow> Inl (e, setBin i b h, g')
                 | Inr (b, g') \<Rightarrow> addBins env g' (setBin i b h) other (Suc i))
      else Inr (h, g))"
  by pat_completeness auto
termination
  by (relation "measure (\<lambda>(env, g, h, other, i). length (centralBins h) + 2 - i)")
     (auto simp: allBins_def setBin_def)

definition addNumeric ::
  "('d, 's, 'g) statistics \<Rightarrow> 'g \<Rightarrow> ('d, 's) Numeric \<Rightarrow> ('d, 's) Numeric
    \<Rightarrow> (error \<times> ('d, 's) Numeric \<times> 'g) + (('d, 's) Numeric \<times> 'g)" where
  "addNumeric env g h other =
     (if \<not> canAddNumeric h other then Inl (Error ''Merging incompatible Numerics.'', h, g)
      else
        (let (ds, g1) = mergeDiagnostics env g (nanDiagnostics h) (numNans h)
                          (nanDiagnostics other) (numNans other) MAX_DIAGNOSTICS;
             (vs, g2) = mergeValues env g1 (sampleValues h) (numValues h)
                          (sampleValues other) (numValues other)
                          (mean2 (maxNumSampleValues h) (maxNumSampleValues other));
             h1 = h\<lparr>nanDiagnostics := ds, sampleValues := vs,
                    numNans := numNans h + numNans other,
                    running := runningMerge env (running h) (running other)\<rparr>
         in addBins env g2 h1 other 0))"

text \<open>
  \<^verbatim>\<open>Numeric.prototype.getApproximatePercentile\<close>. The bin at index 0 of \<^verbatim>\<open>allBins\<close> is the
  underflow bin and the last one is the overflow bin. A \<open>percent\<close> that passes the
  guard is a finite number, so \<^verbatim>\<open>valuesToSkip\<close> is a finite integer and the last case
  of \<open>getApproximatePercentile\<close> never applies.
\<close>

function percentileLoop :: "('d, 's) Numeric \<Rightarrow> int \<Rightarrow> nat \<Rightarrow> error + num" where
  "percentileLoop h valuesToSkip i =
     (if i < length (allBins h)
      then (let bin = allBins h ! i;
                valuesToSkip' = valuesToSkip - int (count bin)
            in if valuesToSkip' < 0
               then (if i = 0 then Inr (range_max (bin_range bin))
                     else if i = length (allBins h) - 1 then Inr (range_min (bin_range bin))
                     else Inr (center (bin_range bin)))
               else percentileLoop h valuesToSkip' (Suc i))
      else Inl (Error ''Unreachable''))"
  by pat_completeness auto
termination
  by (relation "measure (\<lambda>(h, v, i). length (allBins h) - i)") auto


text \<open>\<^verbatim>\<open>Numeric.prototype.getDifferenceSignificance\<close>; \<open>other\<close> is any \<^verbatim>\<open>NumericBase\<close>.\<close>

record ScalarNumeric =
  scalar_unit :: Unit
  scalar_value :: num

datatype ('d, 's) NumericBase = AScalar ScalarNumeric | ANumeric "('d, 's) Numeric"

fun unitOf :: "('d, 's) NumericBase \<Rightarrow> Unit" where
  "unitOf (AScalar s) = scalar_unit s"
| "unitOf (ANumeric h) = unit h"

definition getDifferenceSignificance ::
  "('d, 's, 'g) statistics \<Rightarrow> ('d, 's) Numeric \<Rightarrow> ('d, 's) NumericBase \<Rightarrow> num option
    \<Rightarrow> error + Significance" where
  "getDifferenceSignificance env h other opt_alpha =
     (if unit h \<noteq> unitOf other
      then Inl (Error ''Cannot compare Numerics with different units'')
      else if improvementDirection (unit h) = DONT_CARE then Inr SIG_DONT_CARE
      else case other of
             AScalar s \<Rightarrow> Inl (Error ''Unable to compute a p-value'')
           | ANumeric that \<Rightarrow>
               (let p = mwuTest env (sampleValues h) (sampleValues that)
                in if num_lt p (orDefault opt_alpha DEFAULT_ALPHA)
                   then Inr SIGNIFICANT else Inr INSIGNIFICANT))"

section \<open>The builder\<close>

text \<open>
  \<^verbatim>\<open>NumericBuilder\<close>. The array \<^verbatim>\<open>boundaries_\<close> starts with one element and only grows, so
  it is held as its first element and the rest.
\<close>

record NumericBuilder =
  builder_unit :: Unit
  firstBoundary :: num
  laterBoundaries :: "num list"

definition NumericBuilder_new :: "Unit \<Rightarrow> num \<Rightarrow> NumericBuilder" where
  "NumericBuilder_new u minBinBoundary =
     \<lparr>builder_unit = u, firstBoundary = minBinBoundary, laterBoundaries = []\<rparr>"

definition boundaries :: "NumericBuilder \<Rightarrow> num list" where
  "boundaries b = firstBoundary b # laterBoundaries b"

definition minBinBoundary :: "NumericBuilder \<Rightarrow> num" where
  "minBinBoundary b = firstBoundary b"

definition maxBinBoundary :: "NumericBuilder \<Rightarrow> num" where
  "maxBinBoundary b = last (boundaries b)"

definition addBinBoundary :: "NumericBuilder \<Rightarrow> num \<Rightarrow> (error \<times> NumericBuilder) + NumericBuilder" where
  "addBinBoundary b nextMaxBinBoundary =
     (if num_le nextMaxBinBoundary (maxBinBoundary b)
      then Inl (Error ''The added max bin boundary must be larger than the current max boundary'', b)
      else Inr (b\<lparr>laterBoundaries := laterBoundaries b @ [nextMaxBinBoundary]\<rparr>))"

text \<open>\<^verbatim>\<open>addLinearBins\<close>; the bin count is an integer.\<close>

function linearLoop ::
  "NumericBuilder \<Rightarrow> num \<Rightarrow> num \<Rightarrow> int \<Rightarrow> int \<Rightarrow> (error \<times> NumericBuilder) + NumericBuilder" where
  "linearLoop b curMaxBinBoundary binWidth binCount i =
     (if i < binCount
      then (case addBinBoundary b
                   (num_add curMaxBinBoundary (num_mul (Fin (of_int i)) binWidth)) of
              Inl e \<Rightarrow> Inl e
            | Inr b' \<Rightarrow> linearLoop b' curMaxBinBoundary binWidth binCount (i + 1))
      else Inr b)"
  by pat_completeness auto
termination
  by (relation "measure (\<lambda>(b, c, w, n, i). nat (n - i))") auto

definition addLinearBins ::
  "NumericBuilder \<Rightarrow> num \<Rightarrow> int \<Rightarrow> (error \<times> NumericBuilder) + NumericBuilder" where
  "addLinearBins b nextMaxBinBoundary binCount =
     (if binCount \<le> 0 then Inl (Error ''Bin count must be positive'', b)
      else
        (let curMaxBinBoundary = maxBinBoundary b
         in if num_le nextMaxBinBoundary curMaxBinBoundary
            then Inl (Error ''The new max bin boundary must be greater than the previous max bin boundary'', b)
            else
              (let binWidth = num_div (num_sub nextMaxBinBoundary curMaxBinBoundary)
                                (Fin (of_int binCount))
               in case linearLoop b curMaxBinBoundary binWidth binCount 1 of
                    Inl e \<Rightarrow> Inl e
                  | Inr b' \<Rightarrow> addBinBoundary b' nextMaxBinBoundary)))"

text \<open>\<^verbatim>\<open>NumericBuilder.prototype.build\<close>\<close>

definition build :: "('d, 's, 'g) statistics \<Rightarrow> NumericBuilder \<Rightarrow> ('d, 's) Numeric" where
  "build env b =
     (let underflow = NumericBin_new (fromExplicitRange (Fin (- MAX_VALUE)) (minBinBoundary b));
          overflow = NumericBin_new (fromExplicitRange (maxBinBoundary b) (Fin MAX_VALUE));
          central = map (\<lambda>i. NumericBin_new
                               (fromExplicitRange (boundaries b ! i) (boundaries b ! (i + 1))))
                      [0 ..< length (boundaries b) - 1]
      in Numeric_new env (builder_unit b)
           (fromExplicitRange (minBinBoundary b) (maxBinBoundary b))
           underflow central overflow)"

text \<open>The loop \<^verbatim>\<open>for (var sample of samples) result.add(sample)\<close>\<close>

definition addAll ::
  "('d, 's, 'g) statistics \<Rightarrow> 'g \<Rightarrow> ('d, 's) Numeric \<Rightarrow> num list \<Rightarrow> ('d, 's) Numeric \<times> 'g" where
  "addAll env g h samples = fold (\<lambda>sample (h', g'). add env g' h' sample None) samples (h, g)"

text \<open>\<^verbatim>\<open>Numeric.buildFromSamples\<close>\<close>

definition buildFromSamples ::
  "('d, 's, 'g) statistics \<Rightarrow> 'g \<Rightarrow> Unit \<Rightarrow> num list \<Rightarrow> error + (('d, 's) Numeric \<times> 'g)" where
  "buildFromSamples env g u samples =
     (let r0 = fold (\<lambda>sample r. if \<not> isNaN sample then addValue r sample else r)
                 samples Range_new;
          r1 = (if isEmpty r0 then addValue r0 (Fin 1) else r0);
          r2 = (if num_seq (range_min r1) (range_max r1)
                then addValue r1 (num_sub (range_min r1) (Fin 1)) else r1);
          numBins = \<lceil>sqrt (real (length samples))\<rceil>;
          builder = NumericBuilder_new u (range_min r2)
      in case addLinearBins builder (range_max r2) numBins of
           Inl (e, b) \<Rightarrow> Inl e
         | Inr builder' \<Rightarrow>
             (let result = (build env builder')\<lparr>maxNumSampleValues := Fin 1000\<rparr>
              in Inr (addAll env g result samples)))"

section \<open>Scalars and their serialized form\<close>

text \<open>
  Modelled from the spec: \<^verbatim>\<open>unit.js\<close> is not part of the sources at hand. A unit
  serializes to a token, here \<open>jsonName\<close>, and \<^verbatim>\<open>Unit.fromJSON\<close> looks a token up in the
  table of units, the parameter \<open>fromJSON\<close> below; what it gives for an unknown token is
  not an instance of \<^verbatim>\<open>Unit\<close>.
\<close>

definition asJSON :: "Unit \<Rightarrow> string" where
  "asJSON u = jsonName u"

record ScalarDict =
  dict_unit :: string
  dict_type :: string
  dict_value :: jsval

text \<open>The constructor \<^verbatim>\<open>ScalarNumeric(unit, value)\<close>\<close>

definition ScalarNumeric_new :: "Unit option \<Rightarrow> jsval \<Rightarrow> error + ScalarNumeric" where
  "ScalarNumeric_new opt_unit v =
     (case opt_unit of
        None \<Rightarrow> Inl (Error ''Expected Unit'')
      | Some u \<Rightarrow>
          (case v of
             Num x \<Rightarrow> Inr \<lparr>scalar_unit = u, scalar_value = x\<rparr>
           | Str str \<Rightarrow> Inl (Error ''Expected value to be number'')))"

text \<open>\<^verbatim>\<open>NumericBase.prototype.asDict\<close> with \<^verbatim>\<open>ScalarNumeric.prototype.asDictInto_\<close>\<close>

definition ScalarNumeric_asDict :: "ScalarNumeric \<Rightarrow> ScalarDict" where
  "ScalarNumeric_asDict s =
     \<lparr>dict_unit = asJSON (scalar_unit s),
      dict_type = ''scalar'',
      dict_value =
        (if scalar_value s = PInf then Str ''Infinity''
         else if scalar_value s = NInf then Str ''-Infinity''
         else if isNaN (scalar_value s) then Str ''NaN''
         else Num (scalar_value s))\<rparr>"

text \<open>
  \<^verbatim>\<open>ScalarNumeric.fromDict\<close>. The code also stores the decoded value back into the
  dictionary it was given.
\<close>

definition ScalarNumeric_fromDict ::
  "(string \<Rightarrow> Unit option) \<Rightarrow> ScalarDict \<Rightarrow> error + ScalarNumeric" where
  "ScalarNumeric_fromDict fromJSON d =
     (let v = (case dict_value d of
                 Str str \<Rightarrow>
                   if str = ''-Infinity'' then Num NInf
                   else if str = ''Infinity'' then Num PInf
                   else if str = ''NaN'' then Num NaN
                   else Str str
               | Num x \<Rightarrow> Num x)
      in ScalarNumeric_new (fromJSON (dict_unit d)) v)"

section \<open>Serialized histograms, cloning and merging\<close>

text \<open>
  The serialized forms of a diagnostic (\<open>'dd\<close>) and of the running statistics
  (\<open>'sd\<close>) belong to their own modules; their encoders and decoders are parameters.
  Decoding a diagnostic fails for a type that is not registered.
\<close>

record ('d, 'dd, 's, 'sd) codec =
  diagnosticAsDict :: "'d \<Rightarrow> 'dd"
  diagnosticFromDict :: "'dd \<Rightarrow> error + 'd"
  runningAsDict :: "'s \<Rightarrow> 'sd"
  runningFromDict :: "'sd \<Rightarrow> 's"

record 'dd BinDict =
  bin_min :: num
  bin_max :: num
  bin_count :: nat
  bin_diagnostics :: "'dd list option"

record ('dd, 'sd) NumericDict =
  numeric_unit :: string
  numeric_type :: string
  numeric_min :: num
  numeric_max :: num
  dict_numNans :: nat
  dict_nanDiagnostics :: "'dd list option"
  dict_running :: "'sd option"
  dict_sampleValues :: "num list"
  dict_maxNumSampleValues :: num
  dict_underflowBin :: "'dd BinDict"
  dict_centralBins :: "'dd BinDict list"
  dict_overflowBin :: "'dd BinDict"

text \<open>\<^verbatim>\<open>Array.prototype.map\<close> with a function that may throw\<close>

fun mapE :: "('a \<Rightarrow> error + 'b) \<Rightarrow> 'a list \<Rightarrow> error + 'b list" where
  "mapE f [] = Inr []"
| "mapE f (x # xs) =
     (case f x of
        Inl e \<Rightarrow> Inl e
      | Inr y \<Rightarrow> (case mapE f xs of Inl e \<Rightarrow> Inl e | Inr ys \<Rightarrow> Inr (y # ys)))"

definition NumericBin_asDict :: "('d, 'dd, 's, 'sd) codec \<Rightarrow> 'd NumericBin \<Rightarrow> 'dd BinDict" where
  "NumericBin_asDict c b =
     \<lparr>bin_min = range_min (bin_range b), bin_max = range_max (bin_range b),
      bin_count = count b,
      bin_diagnostics = Some (map (diagnosticAsDict c) (diagnostics b))\<rparr>"

definition NumericBin_fromDict ::
  "('d, 'dd, 's, 'sd) codec \<Rightarrow> 'dd BinDict \<Rightarrow> error + 'd NumericBin" where
  "NumericBin_fromDict c d =
     (let n = \<lparr>bin_range = fromExplicitRange (bin_min d) (bin_max d),
               count = bin_count d, diagnostics = []\<rparr>
      in case bin_diagnostics d of
           None \<Rightarrow> Inr n
         | Some dds \<Rightarrow>
             (case mapE (diagnosticFromDict c) dds of
                Inl e \<Rightarrow> Inl e
              | Inr ds \<Rightarrow> Inr (n\<lparr>diagnostics := ds\<rparr>)))"

text \<open>\<^verbatim>\<open>Numeric.prototype.asDict\<close>\<close>

definition Numeric_asDict ::
  "('d, 'dd, 's, 'sd) codec \<Rightarrow> ('d, 's) Numeric \<Rightarrow> ('dd, 'sd) NumericDict" where
  "Numeric_asDict c h =
     \<lparr>numeric_unit = asJSON (unit h), numeric_type = ''numeric'',
      numeric_min = range_min (numeric_range h), numeric_max = range_max (numeric_range h),
      dict_numNans = numNans h,
      dict_nanDiagnostics = Some (map (diagnosticAsDict c) (nanDiagnostics h)),
      dict_running = Some (runningAsDict c (running h)),
      dict_sampleValues = sampleValues h,
      dict_maxNumSampleValues = maxNumSampleValues h,
      dict_underflowBin = NumericBin_asDict c (underflowBin h),
      dict_centralBins = map (NumericBin_asDict c) (centralBins h),
      dict_overflowBin = NumericBin_asDict c (overflowBin h)\<rparr>"

text \<open>
  \<^verbatim>\<open>Numeric.fromDict\<close>: the bins are decoded first, the constructor recomputes the cached
  maximum from their counts, and the remaining fields are then overwritten.
\<close>

definition Numeric_fromDict ::
  "('d, 's, 'g) statistics \<Rightarrow> ('d, 'dd, 's, 'sd) codec \<Rightarrow> (string \<Rightarrow> Unit option)
    \<Rightarrow> ('dd, 'sd) NumericDict \<Rightarrow> error + ('d, 's) Numeric" where
  "Numeric_fromDict env c fromJSON d =
     (let r = fromExplicitRange (numeric_min d) (numeric_max d)
      in case NumericBin_fromDict c (dict_underflowBin d) of
           Inl e \<Rightarrow> Inl e
         | Inr ub \<Rightarrow>
        (case mapE (NumericBin_fromDict c) (dict_centralBins d) of
           Inl e \<Rightarrow> Inl e
         | Inr cbs \<Rightarrow>
        (case NumericBin_fromDict c (dict_overflowBin d) of
           Inl e \<Rightarrow> Inl e
         | Inr ob \<Rightarrow>
        (case fromJSON (numeric_unit d) of
           None \<Rightarrow> Inl (Error ''Expected provided unit to be instance of Unit'')
         | Some u \<Rightarrow>
             (let n = Numeric_new env u r ub cbs ob;
                  n1 = (case dict_running d of
                          None \<Rightarrow> n
                        | Some rd \<Rightarrow> n\<lparr>running := runningFromDict c rd\<rparr>);
                  n2 = n1\<lparr>numNans := dict_numNans d\<rparr>
              in case (case dict_nanDiagnostics d of
                         None \<Rightarrow> Inr n2
                       | Some dds \<Rightarrow>
                           (case mapE (diagnosticFromDict c) dds of
                              Inl e \<Rightarrow> Inl e
                            | Inr ds \<Rightarrow> Inr (n2\<lparr>nanDiagnostics := ds\<rparr>))) of
                   Inl e \<Rightarrow> Inl e
                 | Inr n3 \<Rightarrow>
                     Inr (n3\<lparr>maxNumSampleValues := dict_maxNumSampleValues d,
                             sampleValues := dict_sampleValues d\<rparr>))))))"

definition clone ::
  "('d, 's, 'g) statistics \<Rightarrow> ('d, 'dd, 's, 'sd) codec \<Rightarrow> (string \<Rightarrow> Unit option)
    \<Rightarrow> ('d, 's) Numeric \<Rightarrow> error + ('d, 's) Numeric" where
  "clone env c fromJSON h = Numeric_fromDict env c fromJSON (Numeric_asDict c h)"

text \<open>\<^verbatim>\<open>sampleValuesInto\<close>, as the samples it appends\<close>

fun sampleValuesInto :: "('d, 's) NumericBase \<Rightarrow> num list" where
  "sampleValuesInto (AScalar s) = [scalar_value s]"
| "sampleValuesInto (ANumeric h) = sampleValues h"

text \<open>
  The test of \<^verbatim>\<open>merge\<close> for the exact path: both operands are histograms and
  \<^verbatim>\<open>canAddNumeric\<close> holds.
\<close>

definition isAddable :: "('d, 's) NumericBase \<Rightarrow> ('d, 's) NumericBase \<Rightarrow> bool" where
  "isAddable this other =
     (case (this, other) of
        (ANumeric h, ANumeric that) \<Rightarrow> canAddNumeric h that
      | _ \<Rightarrow> False)"

text \<open>
  \<^verbatim>\<open>NumericBase.prototype.merge\<close>. It works on clones or on the samples and leaves both
  operands as they are; the result is a new histogram.
\<close>

definition merge ::
  "('d, 's, 'g) statistics \<Rightarrow> ('d, 'dd, 's, 'sd) codec \<Rightarrow> (string \<Rightarrow> Unit option) \<Rightarrow> 'g
    \<Rightarrow> ('d, 's) NumericBase \<Rightarrow> ('d, 's) NumericBase \<Rightarrow> error + (('d, 's) Numeric \<times> 'g)" where
  "merge env c fromJSON g this other =
     (if unitOf this \<noteq> unitOf other then Inl (Error ''Merging Numerics with different units'')
      else case (this, other) of
             (ANumeric h, ANumeric that) \<Rightarrow>
               if canAddNumeric h that
               then (case clone env c fromJSON h of
                       Inl e \<Rightarrow> Inl e
                     | Inr result \<Rightarrow>
                         (case clone env c fromJSON that of
                            Inl e \<Rightarrow> Inl e
                          | Inr that' \<Rightarrow>
                              (case addNumeric env g result that' of
                                 Inl (e, h', g') \<Rightarrow> Inl e
                               | Inr r \<Rightarrow> Inr r)))
               else buildFromSamples env g (unit h) (sampleValuesInto this @ sampleValuesInto other)
           | _ \<Rightarrow> buildFromSamples env g (unitOf this) (sampleValuesInto this @ sampleValuesInto other))"

text \<open>
  Deterministic stand-ins for the collaborators, used to run the model on concrete
  inputs: a reservoir keeps what it is offered up to its capacity, the random source
  counts its calls, the running statistics are the list of values seen, and the test
  reports a fixed probability.
\<close>

definition demoStatistics :: "num \<Rightarrow> (nat, num list, nat) statistics" where
  "demoStatistics p =
     \<lparr>sampleDiagnostic = (\<lambda>g ds n d cap. (take cap (ds @ [d]), Suc g)),
      sampleValue = (\<lambda>g vs n v cap. (if num_lt (Fin (real (length vs))) cap then vs @ [v] else vs, Suc g)),
      mergeDiagnostics = (\<lambda>g ds n es m cap. (take cap (ds @ es), Suc g)),
      mergeValues = (\<lambda>g vs n ws m cap. (vs @ ws, Suc g)),
      runningNew = [],
      runningAdd = (\<lambda>s v. s @ [v]),
      runningMerge = (\<lambda>s t. s @ t),
      mwuTest = (\<lambda>vs ws. p)\<rparr>"

definition ms_smallerIsBetter :: Unit where
  "ms_smallerIsBetter = \<lparr>jsonName = ''ms_smallerIsBetter'', improvementDirection = SMALLER_IS_BETTER\<rparr>"

definition unitless :: Unit where
  "unitless = \<lparr>jsonName = ''unitless'', improvementDirection = DONT_CARE\<rparr>"

definition demoFromJSON :: "string \<Rightarrow> Unit option" where
  "demoFromJSON token =
     (if token = ''ms_smallerIsBetter'' then Some ms_smallerIsBetter else if token = ''unitless'' then Some unitless else None)"

definition demoCodec :: "(nat, nat, num list, num list) codec" where
  "demoCodec =
     \<lparr>diagnosticAsDict = (\<lambda>d. d), diagnosticFromDict = (\<lambda>dd. Inr dd),
      runningAsDict = (\<lambda>s. s), runningFromDict = (\<lambda>sd. sd)\<rparr>"

text \<open>
  The builder object after \<^verbatim>\<open>new NumericBuilder(u, 0).addLinearBins(10, 2)\<close>, and after
  \<^verbatim>\<open>new NumericBuilder(u, 0).addBinBoundary(10)\<close>.
\<close>

definition demoBuilder :: "Unit \<Rightarrow> NumericBuilder" where
  "demoBuilder u =
     (case addLinearBins (NumericBuilder_new u (Fin 0)) (Fin 10) 2 of
        Inl (e, b) \<Rightarrow> b
      | Inr b \<Rightarrow> b)"

definition wideBuilder :: "Unit \<Rightarrow> NumericBuilder" where
  "wideBuilder u =
     (case addBinBoundary (NumericBuilder_new u (Fin 0)) (Fin 10) of
        Inl (e, b) \<Rightarrow> b
      | Inr b \<Rightarrow> b)"

text \<open>The histogram built from the first of these builders, after the given samples.\<close>

definition demoHistogram ::
  "('d, 's, 'g) statistics \<Rightarrow> 'g \<Rightarrow> Unit \<Rightarrow> num list \<Rightarrow> ('d, 's) Numeric" where
  "demoHistogram env g u samples = fst (addAll env g (build env (demoBuilder u)) samples)"

section \<open>Notions used in the statements\<close>



text \<open>Two histograms that differ at most in their bins.\<close>

definition sameButBins :: "('d, 's) Numeric \<Rightarrow> ('d, 's) Numeric \<Rightarrow> bool" where
  "sameButBins h' h =
     (h'\<lparr>underflowBin := underflowBin h, centralBins := centralBins h,
          overflowBin := overflowBin h\<rparr> = h)"

section \<open>Properties\<close>

subsection \<open>Bins of a histogram and what add changes\<close>

lemma length_allBins: "length (allBins h) = length (centralBins h) + 2"
  by (simp add: allBins_def)

lemma allBins_setBin:
  "i < length (allBins h) \<Longrightarrow> allBins (setBin i b h) = (allBins h)[i := b]"
  by (cases i) (auto simp: allBins_def setBin_def list_update_append nth_append)

lemma setBin_fields:
  "unit (setBin i b h) = unit h" "numeric_range (setBin i b h) = numeric_range h"
  "numNans (setBin i b h) = numNans h" "nanDiagnostics (setBin i b h) = nanDiagnostics h"
  "running (setBin i b h) = running h" "maxCount (setBin i b h) = maxCount h"
  "sampleValues (setBin i b h) = sampleValues h"
  "maxNumSampleValues (setBin i b h) = maxNumSampleValues h"
  by (simp_all add: setBin_def)

lemma allBins_updates:
  "allBins (h\<lparr>running := r\<rparr>) = allBins h" "allBins (h\<lparr>maxCount := m\<rparr>) = allBins h"
  "allBins (h\<lparr>numNans := n\<rparr>) = allBins h" "allBins (h\<lparr>nanDiagnostics := ds\<rparr>) = allBins h"
  "allBins (h\<lparr>sampleValues := vs\<rparr>) = allBins h"
  "allBins (h\<lparr>maxNumSampleValues := c\<rparr>) = allBins h"
  by (simp_all add: allBins_def)

lemma getBinForValue_less: "getBinForValue h v < length (allBins h)"
  by (simp add: getBinForValue_def Let_def length_allBins)

lemma NumericBin_add_fst:
  "count (fst (NumericBin_add env g b d)) = count b + 1"
  "bin_range (fst (NumericBin_add env g b d)) = bin_range b"
  by (auto simp: NumericBin_add_def Let_def split: option.splits prod.splits)

lemma add_allBins:
  "allBins (fst (add env g h v d)) =
     (if isNaN v then allBins h
      else (allBins h)[getBinForValue h v :=
             fst (NumericBin_add env g (allBins h ! getBinForValue h v) d)])"
  by (auto simp: add_def Let_def allBins_updates allBins_setBin getBinForValue_less
           split: option.splits prod.splits)

lemma map_update_same: "(map f xs)[i := f (xs ! i)] = map f xs"
  by (metis list_update_id map_update)

lemma add_bin_ranges: "map bin_range (allBins (fst (add env g h v d))) = map bin_range (allBins h)"
  by (simp add: add_allBins map_update NumericBin_add_fst map_update_same)

lemma add_counts:
  "map count (allBins (fst (add env g h v d))) =
     (if isNaN v then map count (allBins h)
      else (map count (allBins h))[getBinForValue h v :=
             count (allBins h ! getBinForValue h v) + 1])"
  by (simp add: add_allBins map_update NumericBin_add_fst)

lemma add_maxCount:
  "maxCount (fst (add env g h v d)) =
     (if isNaN v then maxCount h
      else max (maxCount h) (count (allBins h ! getBinForValue h v) + 1))"
  by (auto simp: add_def Let_def setBin_fields NumericBin_add_def
           split: option.splits prod.splits)

lemma add_fields:
  "unit (fst (add env g h v d)) = unit h"
  "numeric_range (fst (add env g h v d)) = numeric_range h"
  "maxNumSampleValues (fst (add env g h v d)) = maxNumSampleValues h"
  "numNans (fst (add env g h v d)) = (if isNaN v then numNans h + 1 else numNans h)"
  by (auto simp: add_def Let_def setBin_fields split: option.splits prod.splits)

subsection \<open>Exact addition of two histograms: the loops\<close>

declare canAddBins.simps [simp del] addBins.simps [simp del] percentileLoop.simps [simp del]
  linearLoop.simps [simp del]

lemma canAddBins_iff:
  "canAddBins bs os i =
     (\<forall>j. i \<le> j \<and> j < length bs \<longrightarrow> Range_equals (bin_range (bs ! j)) (bin_range (os ! j)))"
proof (induction bs os i rule: canAddBins.induct)
  case (1 bs os i)
  show ?case
  proof (cases "i < length bs \<and> Range_equals (bin_range (bs ! i)) (bin_range (os ! i))")
    case True
    then have "canAddBins bs os i = canAddBins bs os (Suc i)"
      by (subst canAddBins.simps) simp
    also have "\<dots> = (\<forall>j. Suc i \<le> j \<and> j < length bs \<longrightarrow>
                        Range_equals (bin_range (bs ! j)) (bin_range (os ! j)))"
      using True "1.IH" by simp
    also have "\<dots> = (\<forall>j. i \<le> j \<and> j < length bs \<longrightarrow>
                        Range_equals (bin_range (bs ! j)) (bin_range (os ! j)))"
      using True by (metis Suc_leI le_neq_implies_less Suc_leD)
    finally show ?thesis .
  next
    case False
    then show ?thesis
      by (subst canAddBins.simps) auto
  qed
qed

lemma sameButBins_refl: "sameButBins h h"
  by (simp add: sameButBins_def)

lemma sameButBins_setBin: "sameButBins h' h \<Longrightarrow> sameButBins (setBin i b h') h"
  by (auto simp: sameButBins_def setBin_def)

lemma sameButBins_setBin_left: "sameButBins h' (setBin i b h) \<Longrightarrow> sameButBins h' h"
  unfolding sameButBins_def setBin_def
  by (cases h; cases h') (auto split: if_splits)

lemma addBin_ok:
  "Range_equals (bin_range b) (bin_range other) \<Longrightarrow>
   \<exists>b' g'. addBin env g b other = Inr (b', g') \<and> count b' = count b + count other
     \<and> bin_range b' = bin_range b"
  by (auto simp: addBin_def Let_def split: prod.splits)

lemma addBins_ok:
  "length (allBins h) = length (allBins other) \<Longrightarrow>
   (\<forall>j. i \<le> j \<and> j < length (allBins h) \<longrightarrow>
      Range_equals (bin_range (allBins h ! j)) (bin_range (allBins other ! j))) \<Longrightarrow>
   \<exists>h' g'. addBins env g h other i = Inr (h', g') \<and> sameButBins h' h
     \<and> length (allBins h') = length (allBins h)
     \<and> (\<forall>j < length (allBins h).
           if j < i then allBins h' ! j = allBins h ! j
           else \<exists>g0 g1. addBin env g0 (allBins h ! j) (allBins other ! j)
                          = Inr (allBins h' ! j, g1))"
proof (induction env g h other i rule: addBins.induct)
  case (1 env g h other i)
  show ?case
  proof (cases "i < length (allBins h)")
    case False
    then show ?thesis
      by (subst addBins.simps) (simp add: sameButBins_refl)
  next
    case True
    with "1.prems" have eq: "Range_equals (bin_range (allBins h ! i)) (bin_range (allBins other ! i))"
      and io: "i < length (allBins other)" by auto
    from addBin_ok [OF eq, where env=env and g=g] obtain b g1 where
      b: "addBin env g (allBins h ! i) (allBins other ! i) = Inr (b, g1)"
      and br: "bin_range b = bin_range (allBins h ! i)" by blast
    let ?h1 = "setBin i b h"
    have bins1: "allBins ?h1 = (allBins h)[i := b]"
      using True by (rule allBins_setBin)
    have len1: "length (allBins ?h1) = length (allBins other)"
      using "1.prems"(1) by (simp add: bins1)
    have eq1: "\<forall>j. Suc i \<le> j \<and> j < length (allBins ?h1) \<longrightarrow>
                 Range_equals (bin_range (allBins ?h1 ! j)) (bin_range (allBins other ! j))"
      using "1.prems"(2) by (simp add: bins1)
    have step: "addBins env g h other i = addBins env g1 ?h1 other (Suc i)"
      using True io b by (subst addBins.simps) simp
    from "1.IH" [OF True _ b refl len1 eq1] io
    obtain h' g' where r: "addBins env g1 ?h1 other (Suc i) = Inr (h', g')"
      and s: "sameButBins h' ?h1"
      and l: "length (allBins h') = length (allBins ?h1)"
      and p: "\<forall>j < length (allBins ?h1).
                if j < Suc i then allBins h' ! j = allBins ?h1 ! j
                else \<exists>g0 g1. addBin env g0 (allBins ?h1 ! j) (allBins other ! j)
                               = Inr (allBins h' ! j, g1)"
      by auto
    have "\<forall>j < length (allBins h).
            if j < i then allBins h' ! j = allBins h ! j
            else \<exists>g0 g1. addBin env g0 (allBins h ! j) (allBins other ! j)
                           = Inr (allBins h' ! j, g1)"
    proof (intro allI impI)
      fix j assume j: "j < length (allBins h)"
      then have j1: "j < length (allBins ?h1)" by (simp add: bins1)
      have pj: "if j < Suc i then allBins h' ! j = (allBins h)[i := b] ! j
            else \<exists>g0 g1. addBin env g0 ((allBins h)[i := b] ! j) (allBins other ! j)
                           = Inr (allBins h' ! j, g1)"
        using p j1 unfolding bins1 by blast
      consider "j < i" | "j = i" | "i < j" by linarith
      then show "if j < i then allBins h' ! j = allBins h ! j
            else \<exists>g0 g1. addBin env g0 (allBins h ! j) (allBins other ! j)
                           = Inr (allBins h' ! j, g1)"
      proof cases
        case 1
        then show ?thesis using pj by simp
      next
        case 2
        with pj True have "allBins h' ! i = b" by simp
        with 2 b show ?thesis by auto
      next
        case 3
        with pj show ?thesis by simp
      qed
    qed
    with r s l step show ?thesis
      by (auto simp: bins1 dest: sameButBins_setBin_left)
  qed
qed

subsection \<open>The percentile walk\<close>









subsection \<open>Layouts and the order of the percentile values\<close>

lemma num_le_Fin: "num_le (Fin x) (Fin y) = (x \<le> y)"
  by (auto simp: num_le_def num_seq_def)

lemma build_bin_ranges:
  "map bin_range (allBins (build env b)) =
     fromExplicitRange (Fin (- MAX_VALUE)) (firstBoundary b)
     # map (\<lambda>i. fromExplicitRange (boundaries b ! i) (boundaries b ! (i + 1)))
         [0 ..< length (laterBoundaries b)]
     @ [fromExplicitRange (last (boundaries b)) (Fin MAX_VALUE)]"
  by (simp add: build_def Numeric_new_def allBins_def NumericBin_new_def minBinBoundary_def
        maxBinBoundary_def boundaries_def Let_def comp_def)





subsection \<open>Exact addition of two histograms\<close>

lemma sameButBins_fields:
  assumes "sameButBins h' h"
  shows "unit h' = unit h" "numeric_range h' = numeric_range h" "numNans h' = numNans h"
    "nanDiagnostics h' = nanDiagnostics h" "running h' = running h" "maxCount h' = maxCount h"
    "sampleValues h' = sampleValues h" "maxNumSampleValues h' = maxNumSampleValues h"
proof -
  let ?k = "h'\<lparr>underflowBin := underflowBin h, centralBins := centralBins h,
                overflowBin := overflowBin h\<rparr>"
  have eq: "?k = h" using assms by (simp add: sameButBins_def)
  have "unit ?k = unit h'" "numeric_range ?k = numeric_range h'" "numNans ?k = numNans h'"
    "nanDiagnostics ?k = nanDiagnostics h'" "running ?k = running h'" "maxCount ?k = maxCount h'"
    "sampleValues ?k = sampleValues h'" "maxNumSampleValues ?k = maxNumSampleValues h'"
    by simp_all
  then show "unit h' = unit h" "numeric_range h' = numeric_range h" "numNans h' = numNans h"
    "nanDiagnostics h' = nanDiagnostics h" "running h' = running h" "maxCount h' = maxCount h"
    "sampleValues h' = sampleValues h" "maxNumSampleValues h' = maxNumSampleValues h"
    unfolding eq by simp_all
qed

lemma canAddNumeric_iff:
  "canAddNumeric h other \<longleftrightarrow>
     Range_equals (numeric_range h) (numeric_range other) \<and> unit h = unit other
     \<and> length (allBins h) = length (allBins other)
     \<and> (\<forall>j<length (allBins h).
           Range_equals (bin_range (allBins h ! j)) (bin_range (allBins other ! j)))"
  by (simp add: canAddNumeric_def canAddBins_iff)

lemma addBin_result:
  "addBin env g0 b other = Inr (b', g1) \<Longrightarrow>
     count b' = count b + count other \<and> bin_range b' = bin_range b"
  by (auto simp: addBin_def Let_def split: if_splits prod.splits)

lemma addNumeric_ok:
  assumes can: "canAddNumeric h other"
  shows "\<exists>h' g'. addNumeric env g h other = Inr (h', g')
     \<and> unit h' = unit h \<and> numeric_range h' = numeric_range h
     \<and> maxCount h' = maxCount h
     \<and> maxNumSampleValues h' = maxNumSampleValues h
     \<and> numNans h' = numNans h + numNans other
     \<and> running h' = runningMerge env (running h) (running other)
     \<and> nanDiagnostics h' = fst (mergeDiagnostics env g (nanDiagnostics h) (numNans h)
                                 (nanDiagnostics other) (numNans other) MAX_DIAGNOSTICS)
     \<and> (\<exists>g1. sampleValues h' = fst (mergeValues env g1 (sampleValues h) (numValues h)
                 (sampleValues other) (numValues other)
                 (mean2 (maxNumSampleValues h) (maxNumSampleValues other))))
     \<and> length (allBins h') = length (allBins h)
     \<and> (\<forall>j<length (allBins h).
           \<exists>g0 g1. addBin env g0 (allBins h ! j) (allBins other ! j) = Inr (allBins h' ! j, g1))"
proof -
  obtain ds g1 where m1: "mergeDiagnostics env g (nanDiagnostics h) (numNans h)
                          (nanDiagnostics other) (numNans other) MAX_DIAGNOSTICS = (ds, g1)"
    by (cases "mergeDiagnostics env g (nanDiagnostics h) (numNans h)
                          (nanDiagnostics other) (numNans other) MAX_DIAGNOSTICS")
  obtain vs g2 where m2: "mergeValues env g1 (sampleValues h) (numValues h)
                          (sampleValues other) (numValues other)
                          (mean2 (maxNumSampleValues h) (maxNumSampleValues other)) = (vs, g2)"
    by (cases "mergeValues env g1 (sampleValues h) (numValues h)
                          (sampleValues other) (numValues other)
                          (mean2 (maxNumSampleValues h) (maxNumSampleValues other))")
  define h1 where "h1 = h\<lparr>nanDiagnostics := ds, sampleValues := vs,
                    numNans := numNans h + numNans other,
                    running := runningMerge env (running h) (running other)\<rparr>"
  have bins1: "allBins h1 = allBins h" by (simp add: h1_def allBins_def)
  have run: "addNumeric env g h other = addBins env g2 h1 other 0"
    using can by (simp add: addNumeric_def m1 m2 h1_def)
  from can have len: "length (allBins h1) = length (allBins other)"
    and eq: "\<forall>j. 0 \<le> j \<and> j < length (allBins h1) \<longrightarrow>
               Range_equals (bin_range (allBins h1 ! j)) (bin_range (allBins other ! j))"
    by (simp_all add: canAddNumeric_iff bins1)
  from addBins_ok [OF len eq, of env g2]
  obtain h' g' where r: "addBins env g2 h1 other 0 = Inr (h', g')" and s: "sameButBins h' h1"
    and l: "length (allBins h') = length (allBins h1)"
    and p: "\<forall>j<length (allBins h1).
              \<exists>g0 g1. addBin env g0 (allBins h1 ! j) (allBins other ! j) = Inr (allBins h' ! j, g1)"
    by auto
  note f = sameButBins_fields [OF s]
  have "sampleValues h' = fst (mergeValues env g1 (sampleValues h) (numValues h)
                 (sampleValues other) (numValues other)
                 (mean2 (maxNumSampleValues h) (maxNumSampleValues other)))"
    by (simp add: f h1_def m2)
  moreover have "nanDiagnostics h' = fst (mergeDiagnostics env g (nanDiagnostics h) (numNans h)
                                 (nanDiagnostics other) (numNans other) MAX_DIAGNOSTICS)"
    by (simp add: f h1_def m1)
  ultimately show ?thesis
    using r l p unfolding run bins1 by (auto simp: f h1_def)
qed

lemma addNumeric_counts:
  assumes "canAddNumeric h other" "addNumeric env g h other = Inr (h', g')"
  shows "map count (allBins h') = map2 (+) (map count (allBins h)) (map count (allBins other))"
    and "map bin_range (allBins h') = map bin_range (allBins h)"
proof -
  from addNumeric_ok [OF assms(1), of env g] assms(2)
  have l: "length (allBins h') = length (allBins h)"
    and p: "\<forall>j<length (allBins h).
           \<exists>g0 g1. addBin env g0 (allBins h ! j) (allBins other ! j) = Inr (allBins h' ! j, g1)"
    by auto
  have lo: "length (allBins h) = length (allBins other)"
    using assms(1) by (simp add: canAddNumeric_iff)
  show "map count (allBins h') = map2 (+) (map count (allBins h)) (map count (allBins other))"
  proof (rule nth_equalityI)
    show "length (map count (allBins h')) =
      length (map2 (+) (map count (allBins h)) (map count (allBins other)))"
      using l lo by simp
  next
    fix j assume "j < length (map count (allBins h'))"
    then have j: "j < length (allBins h)" using l by simp
    with p obtain g0 g1 where "addBin env g0 (allBins h ! j) (allBins other ! j) = Inr (allBins h' ! j, g1)"
      by blast
    from addBin_result [OF this] j l lo
    show "map count (allBins h') ! j =
      map2 (+) (map count (allBins h)) (map count (allBins other)) ! j"
      by simp
  qed
  show "map bin_range (allBins h') = map bin_range (allBins h)"
  proof (rule nth_equalityI)
    show "length (map bin_range (allBins h')) = length (map bin_range (allBins h))"
      using l by simp
  next
    fix j assume "j < length (map bin_range (allBins h'))"
    then have j: "j < length (allBins h)" using l by simp
    with p obtain g0 g1 where "addBin env g0 (allBins h ! j) (allBins other ! j) = Inr (allBins h' ! j, g1)"
      by blast
    from addBin_result [OF this] j l
    show "map bin_range (allBins h') ! j = map bin_range (allBins h) ! j"
      by simp
  qed
qed

text \<open>
  Claim C5. \<^verbatim>\<open>addNumeric(other)\<close> throws exactly when \<^verbatim>\<open>canAddNumeric(other)\<close> is
  false, that is when the units differ, the overall ranges differ, the numbers of bins
  differ or some pair of corresponding bins has different ranges. When it throws, the
  histogram and the random source are as they were before the call. When it does not,
  it runs to the end: the NaN counts are summed, the running statistics are merged, and
  every bin is the result of \<^verbatim>\<open>addBin\<close> on the corresponding pair, with the counts
  summed and the range kept.
\<close>

theorem addNumeric_all_or_nothing:
  "(canAddNumeric h other \<longleftrightarrow>
      Range_equals (numeric_range h) (numeric_range other) \<and> unit h = unit other
      \<and> length (allBins h) = length (allBins other)
      \<and> (\<forall>j<length (allBins h).
            Range_equals (bin_range (allBins h ! j)) (bin_range (allBins other ! j))))
   \<and> (\<not> canAddNumeric h other \<longrightarrow>
        addNumeric env g h other = Inl (Error ''Merging incompatible Numerics.'', h, g))
   \<and> (canAddNumeric h other \<longrightarrow>
        (\<exists>h' g'. addNumeric env g h other = Inr (h', g')
           \<and> numNans h' = numNans h + numNans other
           \<and> running h' = runningMerge env (running h) (running other)
           \<and> length (allBins h') = length (allBins h)
           \<and> (\<forall>j<length (allBins h).
                 (\<exists>g0 g1. addBin env g0 (allBins h ! j) (allBins other ! j)
                            = Inr (allBins h' ! j, g1))
                 \<and> count (allBins h' ! j) = count (allBins h ! j) + count (allBins other ! j)
                 \<and> bin_range (allBins h' ! j) = bin_range (allBins h ! j))))"
proof (intro conjI impI)
  show "canAddNumeric h other \<longleftrightarrow>
      Range_equals (numeric_range h) (numeric_range other) \<and> unit h = unit other
      \<and> length (allBins h) = length (allBins other)
      \<and> (\<forall>j<length (allBins h).
            Range_equals (bin_range (allBins h ! j)) (bin_range (allBins other ! j)))"
    by (rule canAddNumeric_iff)
next
  assume "\<not> canAddNumeric h other"
  then show "addNumeric env g h other = Inl (Error ''Merging incompatible Numerics.'', h, g)"
    by (simp add: addNumeric_def)
next
  assume can: "canAddNumeric h other"
  from addNumeric_ok [OF can, of env g]
  obtain h' g' where r: "addNumeric env g h other = Inr (h', g')"
    and f: "numNans h' = numNans h + numNans other"
      "running h' = runningMerge env (running h) (running other)"
      "length (allBins h') = length (allBins h)"
    and p: "\<forall>j<length (allBins h).
           \<exists>g0 g1. addBin env g0 (allBins h ! j) (allBins other ! j) = Inr (allBins h' ! j, g1)"
    by blast
  have "\<forall>j<length (allBins h).
                 (\<exists>g0 g1. addBin env g0 (allBins h ! j) (allBins other ! j)
                            = Inr (allBins h' ! j, g1))
                 \<and> count (allBins h' ! j) = count (allBins h ! j) + count (allBins other ! j)
                 \<and> bin_range (allBins h' ! j) = bin_range (allBins h ! j)"
  proof (intro allI impI)
    fix j assume "j < length (allBins h)"
    with p obtain g0 g1 where
      a: "addBin env g0 (allBins h ! j) (allBins other ! j) = Inr (allBins h' ! j, g1)"
      by blast
    from addBin_result [OF a] a
    show "(\<exists>g0 g1. addBin env g0 (allBins h ! j) (allBins other ! j)
                            = Inr (allBins h' ! j, g1))
                 \<and> count (allBins h' ! j) = count (allBins h ! j) + count (allBins other ! j)
                 \<and> bin_range (allBins h' ! j) = bin_range (allBins h ! j)"
      by blast
  qed
  with r f show "\<exists>h' g'. addNumeric env g h other = Inr (h', g')
           \<and> numNans h' = numNans h + numNans other
           \<and> running h' = runningMerge env (running h) (running other)
           \<and> length (allBins h') = length (allBins h)
           \<and> (\<forall>j<length (allBins h).
                 (\<exists>g0 g1. addBin env g0 (allBins h ! j) (allBins other ! j)
                            = Inr (allBins h' ! j, g1))
                 \<and> count (allBins h' ! j) = count (allBins h ! j) + count (allBins other ! j)
                 \<and> bin_range (allBins h' ! j) = bin_range (allBins h ! j))"
    by blast
qed

subsection \<open>The linear builder of the scenario\<close>

lemma nth_of_map: "map f xs = ys \<Longrightarrow> i < length ys \<Longrightarrow> f (xs ! i) = ys ! i"
  by (metis length_map nth_map)

lemma num_lt_Fin: "num_lt (Fin x) (Fin y) = (x < y)" by simp

lemma demoBuilder_eq:
  "addLinearBins (NumericBuilder_new u (Fin 0)) (Fin 10) 2 = Inr (demoBuilder u)"
  "demoBuilder u = \<lparr>builder_unit = u, firstBoundary = Fin 0, laterBoundaries = [Fin 5, Fin 10]\<rparr>"
  by (simp_all add: demoBuilder_def addLinearBins_def NumericBuilder_new_def maxBinBoundary_def
        boundaries_def num_le_Fin num_sub_def num_div_def linearLoop.simps addBinBoundary_def
        num_mul_def)

lemma wideBuilder_eq:
  "addBinBoundary (NumericBuilder_new u (Fin 0)) (Fin 10) = Inr (wideBuilder u)"
  "wideBuilder u = \<lparr>builder_unit = u, firstBoundary = Fin 0, laterBoundaries = [Fin 10]\<rparr>"
  by (simp_all add: wideBuilder_def NumericBuilder_new_def maxBinBoundary_def
        boundaries_def num_le_Fin addBinBoundary_def)

lemma demo_ranges:
  "map bin_range (allBins (build env (demoBuilder u))) =
     [fromExplicitRange (Fin (- MAX_VALUE)) (Fin 0), fromExplicitRange (Fin 0) (Fin 5),
      fromExplicitRange (Fin 5) (Fin 10), fromExplicitRange (Fin 10) (Fin MAX_VALUE)]"
  by (simp add: build_bin_ranges demoBuilder_eq(2) boundaries_def upt_rec)

lemma build_counts: "map count (allBins (build env b)) = replicate (length (boundaries b) + 1) 0"
  by (simp add: build_def Numeric_new_def allBins_def NumericBin_new_def Let_def comp_def
        map_replicate_const boundaries_def replicate_append_same)

lemma demo_counts: "map count (allBins (build env (demoBuilder u))) = [0, 0, 0, 0]"
  by (simp add: build_counts demoBuilder_eq(2) boundaries_def numeral_eq_Suc)

lemma findHigh_demo:
  "map bin_range bs = [fromExplicitRange (Fin (- MAX_VALUE)) (Fin 0), fromExplicitRange (Fin 0) (Fin 5),
      fromExplicitRange (Fin 5) (Fin 10), fromExplicitRange (Fin 10) (Fin MAX_VALUE)] \<Longrightarrow>
   findHighIndexInSortedArray bs (\<lambda>b. num_lt v (range_max (bin_range b))) =
     (if num_lt v (Fin 0) then 0 else if num_lt v (Fin 5) then 1 else if num_lt v (Fin 10) then 2
      else if num_lt v (Fin MAX_VALUE) then 3 else 4)"
  by (auto simp: fromExplicitRange_def map_eq_Cons_conv)

lemma demo_getBinForValue:
  assumes "map bin_range (allBins h) = map bin_range (allBins (build env (demoBuilder u)))"
  shows "getBinForValue h v =
     (if num_lt v (Fin 0) then 0 else if num_lt v (Fin 5) then 1 else if num_lt v (Fin 10) then 2
      else 3)"
proof -
  have r: "map bin_range (allBins h) = [fromExplicitRange (Fin (- MAX_VALUE)) (Fin 0), fromExplicitRange (Fin 0) (Fin 5),
      fromExplicitRange (Fin 5) (Fin 10), fromExplicitRange (Fin 10) (Fin MAX_VALUE)]"
    using assms by (simp add: demo_ranges)
  have "length (allBins h) = 4" using arg_cong [OF r, of length] by simp
  then show ?thesis
    by (simp add: getBinForValue_def findHigh_demo [OF r])
qed

text \<open>
  Claim C6. A builder with minimum boundary 0, after \<^verbatim>\<open>addLinearBins(10, 2)\<close>, builds a
  histogram of exactly four bins, with ranges \<open>[-MAX_VALUE, 0]\<close>, \<open>[0, 5]\<close>,
  \<open>[5, 10]\<close> and \<open>[10, MAX_VALUE]\<close> in that order and all counts zero. The two outer
  bounds are the largest finite doubles, which is how the code writes the unbounded
  ends of the underflow and overflow bins: every number below 0, \<open>-Infinity\<close>
  included, is placed in the first bin, and every number from 10 on, \<open>+Infinity\<close>
  included, in the last. Then \<^verbatim>\<open>add(7)\<close> raises the count of the bin \<open>[5, 10]\<close> to 1,
  leaves the other counts at 0 and changes no range.
\<close>

theorem linear_bins_scenario:
  "\<exists>b. addLinearBins (NumericBuilder_new u (Fin 0)) (Fin 10) 2 = Inr b
     \<and> map bin_range (allBins (build env b)) =
         [fromExplicitRange (Fin (- MAX_VALUE)) (Fin 0), fromExplicitRange (Fin 0) (Fin 5),
          fromExplicitRange (Fin 5) (Fin 10), fromExplicitRange (Fin 10) (Fin MAX_VALUE)]
     \<and> map count (allBins (build env b)) = [0, 0, 0, 0]
     \<and> getBinForValue (build env b) NInf = 0
     \<and> getBinForValue (build env b) PInf = 3
     \<and> getBinForValue (build env b) (Fin 7) = 2
     \<and> map count (allBins (fst (add env g (build env b) (Fin 7) opt_diagnostic))) = [0, 0, 1, 0]
     \<and> map bin_range (allBins (fst (add env g (build env b) (Fin 7) opt_diagnostic))) =
         map bin_range (allBins (build env b))"
proof -
  have 7: "getBinForValue (build env (demoBuilder u)) (Fin 7) = 2"
    by (simp add: demo_getBinForValue [OF refl])
  have "map count (allBins (fst (add env g (build env (demoBuilder u)) (Fin 7) opt_diagnostic)))
          = [0, 0, 1, 0]"
  proof -
    have c2: "count (allBins (build env (demoBuilder u)) ! 2) = 0"
      using nth_of_map [OF demo_counts, of 2 env u] by simp
    show ?thesis
      by (simp add: add_counts 7 c2 demo_counts isNaN_def)
  qed
  then show ?thesis
    by (intro exI [of _ "demoBuilder u"])
       (simp add: demoBuilder_eq(1) demo_ranges demo_counts demo_getBinForValue [OF refl]
          add_bin_ranges)
qed

subsection \<open>The cached maximum bin count\<close>

lemma addAll_Nil: "addAll env g h [] = (h, g)"
  by (simp add: addAll_def)

lemma addAll_Cons:
  "addAll env g h (v # vs) = addAll env (snd (add env g h v None)) (fst (add env g h v None)) vs"
  by (simp add: addAll_def split: prod.splits)

lemma addAll_keeps:
  "map bin_range (allBins (fst (addAll env g h vs))) = map bin_range (allBins h)"
  "unit (fst (addAll env g h vs)) = unit h"
  "numeric_range (fst (addAll env g h vs)) = numeric_range h"
  "maxNumSampleValues (fst (addAll env g h vs)) = maxNumSampleValues h"
  by (induction vs arbitrary: g h) (simp_all add: addAll_Nil addAll_Cons add_bin_ranges add_fields)

lemma fold_maxCount:
  "fold (\<lambda>bin m. if m < count bin then count bin else m) bs m = Max (set (m # map count bs))"
proof -
  have eq: "(\<lambda>bin m. if m < count bin then count bin else m) = max \<circ> count"
    by (auto simp: fun_eq_iff max_def)
  have "fold (\<lambda>bin m. if m < count bin then count bin else m) bs m
               = fold max (map count bs) m"
    unfolding eq by (simp add: fold_map)
  then show ?thesis by (simp only: Max.set_eq_fold)
qed

lemma allBins_Numeric_new: "allBins (Numeric_new env u r ub cbs ob) = ub # cbs @ [ob]"
  by (simp add: Numeric_new_def allBins_def)

lemma Numeric_new_maxCount:
  "maxCount (Numeric_new env u r ub cbs ob)
     = Max (set (map count (allBins (Numeric_new env u r ub cbs ob))))"
proof -
  have "maxCount (Numeric_new env u r ub cbs ob) = Max (set (0 # map count (ub # cbs @ [ob])))"
    by (simp only: Numeric_new_def Let_def fold_maxCount Numeric.select_convs)
  also have "\<dots> = Max (set (map count (ub # cbs @ [ob])))"
    by (simp add: max_def)
  finally show ?thesis by (simp only: allBins_Numeric_new)
qed

lemma build_maxCount: "maxCount (build env b) = 0"
proof -
  have "maxCount (build env b) = Max (set (map count (allBins (build env b))))"
    by (simp only: build_def Let_def Numeric_new_maxCount)
  then show ?thesis by (simp add: build_counts set_replicate_conv_if)
qed

lemma build_fields:
  "unit (build env b) = builder_unit b"
  "numeric_range (build env b) = fromExplicitRange (firstBoundary b) (last (boundaries b))"
  "numNans (build env b) = 0" "sampleValues (build env b) = []"
  "maxNumSampleValues (build env b) = Fin (real (10 * length (allBins (build env b))))"
  "length (allBins (build env b)) = length (boundaries b) + 1"
  by (simp_all add: build_def Numeric_new_def Let_def minBinBoundary_def maxBinBoundary_def
        allBins_def boundaries_def NumericBin_new_def comp_def mult.commute)

lemma demoHistogram_layout:
  "map bin_range (allBins (demoHistogram env g u vs)) =
     map bin_range (allBins (build env' (demoBuilder u)))"
  "unit (demoHistogram env g u vs) = u"
  "numeric_range (demoHistogram env g u vs) = fromExplicitRange (Fin 0) (Fin 10)"
  "length (allBins (demoHistogram env g u vs)) = 4"
proof -
  show 1: "map bin_range (allBins (demoHistogram env g u vs)) =
     map bin_range (allBins (build env' (demoBuilder u)))"
    by (simp add: demoHistogram_def addAll_keeps demo_ranges)
  show "unit (demoHistogram env g u vs) = u"
    by (simp add: demoHistogram_def addAll_keeps build_fields demoBuilder_eq(2))
  show "numeric_range (demoHistogram env g u vs) = fromExplicitRange (Fin 0) (Fin 10)"
    by (simp add: demoHistogram_def addAll_keeps build_fields demoBuilder_eq(2) boundaries_def)
  show "length (allBins (demoHistogram env g u vs)) = 4"
    using arg_cong [OF 1, of length] by (simp add: demo_ranges)
qed

lemma demoHistogram_7:
  "map count (allBins (demoHistogram env g u [Fin 7])) = [0, 0, 1, 0]"
  "maxCount (demoHistogram env g u [Fin 7]) = 1"
  "numNans (demoHistogram env g u [Fin 7]) = 0"
proof -
  have 7: "getBinForValue (build env (demoBuilder u)) (Fin 7) = 2"
    by (simp add: demo_getBinForValue [OF refl])
  have c2: "count (allBins (build env (demoBuilder u)) ! 2) = 0"
    using nth_of_map [OF demo_counts, of 2 env u] by simp
  show "map count (allBins (demoHistogram env g u [Fin 7])) = [0, 0, 1, 0]"
    by (simp add: demoHistogram_def addAll_Cons addAll_Nil add_counts 7 c2 demo_counts isNaN_def)
  show "maxCount (demoHistogram env g u [Fin 7]) = 1"
    by (simp add: demoHistogram_def addAll_Cons addAll_Nil add_maxCount 7 c2 build_maxCount isNaN_def)
  show "numNans (demoHistogram env g u [Fin 7]) = 0"
    by (simp add: demoHistogram_def addAll_Cons addAll_Nil add_fields build_fields isNaN_def)
qed

lemma Range_equals_demo:
  "r \<in> set [fromExplicitRange (Fin (- MAX_VALUE)) (Fin 0), fromExplicitRange (Fin 0) (Fin 5),
      fromExplicitRange (Fin 5) (Fin 10), fromExplicitRange (Fin 10) (Fin MAX_VALUE),
      fromExplicitRange (Fin 0) (Fin 10)] \<Longrightarrow> Range_equals r r"
  by (auto simp: Range_equals_def fromExplicitRange_def num_seq_def)

lemma canAddNumeric_demo: "canAddNumeric (demoHistogram env g u vs) (demoHistogram env g' u ws)"
proof -
  let ?rs = "[fromExplicitRange (Fin (- MAX_VALUE)) (Fin 0), fromExplicitRange (Fin 0) (Fin 5),
      fromExplicitRange (Fin 5) (Fin 10), fromExplicitRange (Fin 10) (Fin MAX_VALUE)]"
  have a: "map bin_range (allBins (demoHistogram env g u vs)) = ?rs"
    and b: "map bin_range (allBins (demoHistogram env g' u ws)) = ?rs"
    by (simp_all add: demoHistogram_layout(1) [where env'=env] demo_ranges)
  have "Range_equals (bin_range (allBins (demoHistogram env g u vs) ! j))
          (bin_range (allBins (demoHistogram env g' u ws) ! j))" if "j < 4" for j
  proof -
    have "bin_range (allBins (demoHistogram env g u vs) ! j) = ?rs ! j"
      "bin_range (allBins (demoHistogram env g' u ws) ! j) = ?rs ! j"
      using nth_of_map [OF a, of j] nth_of_map [OF b, of j] that by simp_all
    moreover have "?rs ! j \<in> set ?rs" using that by (intro nth_mem) simp
    ultimately show ?thesis using Range_equals_demo [of "?rs ! j"] by auto
  qed
  then show ?thesis
    by (simp add: canAddNumeric_iff demoHistogram_layout Range_equals_demo)
qed

text \<open>
  Claim C1, at the input where the code departs from it: two histograms of the same
  builder, \<^verbatim>\<open>add(7)\<close> on each, then \<^verbatim>\<open>addNumeric\<close>. The bin \<open>[5, 10]\<close> then holds two
  values, and the cached maximum is still 1: \<^verbatim>\<open>addNumeric\<close> never writes it.
\<close>

theorem addNumeric_leaves_maxCount_stale:
  "\<exists>h' g'. addNumeric env g (demoHistogram env g1 u [Fin 7]) (demoHistogram env g2 u [Fin 7])
             = Inr (h', g')
     \<and> map count (allBins h') = [0, 0, 2, 0]
     \<and> maxCount h' = 1
     \<and> maxCount h' \<noteq> Max (set (map count (allBins h')))"
proof -
  let ?a = "demoHistogram env g1 u [Fin 7]" and ?b = "demoHistogram env g2 u [Fin 7]"
  have can: "canAddNumeric ?a ?b" by (rule canAddNumeric_demo)
  from addNumeric_ok [OF can, of env g]
  obtain h' g' where r: "addNumeric env g ?a ?b = Inr (h', g')" and m: "maxCount h' = maxCount ?a"
    by blast
  from addNumeric_counts(1) [OF can r]
  have c: "map count (allBins h') = [0, 0, 2, 0]" by (simp add: demoHistogram_7)
  have "Max (set (map count (allBins h'))) = 2" unfolding c by simp
  moreover have "maxCount h' = 1" using m by (simp add: demoHistogram_7)
  ultimately show ?thesis using r c by (intro exI [of _ h'] exI [of _ g']) simp
qed

subsection \<open>The cached maximum under add\<close>

lemma Max_list_update:
  fixes cs :: "nat list"
  assumes i: "i < length cs" and y: "cs ! i \<le> y"
  shows "Max (set (cs[i := y])) = max (Max (set cs)) y"
proof (rule Max_eqI)
  show "finite (set (cs[i := y]))" by simp
next
  fix z assume "z \<in> set (cs[i := y])"
  then have "z = y \<or> z \<in> set cs" using set_update_subset_insert [of cs i y] by auto
  then show "z \<le> max (Max (set cs)) y" by (auto simp: max.coboundedI1)
next
  have ne: "set cs \<noteq> {}" using i by auto
  show "max (Max (set cs)) y \<in> set (cs[i := y])"
  proof (cases "Max (set cs) \<le> y")
    case True
    then show ?thesis using i by (simp add: max_absorb2 set_update_memI)
  next
    case False
    have "Max (set cs) \<in> set cs" using ne by (intro Max_in) simp_all
    then obtain k where k: "k < length cs" "cs ! k = Max (set cs)"
      by (auto simp: in_set_conv_nth)
    with False y have "k \<noteq> i" by auto
    then have "cs[i := y] ! k = Max (set cs)" using k by simp
    then have "Max (set cs) \<in> set (cs[i := y])"
      using k(1) by (metis length_list_update nth_mem)
    then show ?thesis using False by (simp add: max_def)
  qed
qed

lemma add_keeps_maxCount:
  assumes inv: "maxCount h = Max (set (map count (allBins h)))"
  shows "maxCount (fst (add env g h v d)) = Max (set (map count (allBins (fst (add env g h v d)))))"
proof (cases "isNaN v")
  case True
  then show ?thesis using inv by (simp only: add_counts add_maxCount if_True)
next
  case False
  let ?i = "getBinForValue h v"
  have i: "?i < length (map count (allBins h))" by (simp add: getBinForValue_less)
  have c: "count (allBins h ! ?i) = map count (allBins h) ! ?i"
    using i by simp
  have "Max (set ((map count (allBins h))[?i := map count (allBins h) ! ?i + 1]))
          = max (Max (set (map count (allBins h)))) (map count (allBins h) ! ?i + 1)"
    using i by (rule Max_list_update) simp
  then show ?thesis
    using False inv by (simp only: add_counts add_maxCount c if_False)
qed

subsection \<open>Reservoir capacity, significance and scalars\<close>

text \<open>
  Claim C2, as amended. A histogram that a builder's \<^verbatim>\<open>build()\<close> creates has a sample
  reservoir capacity of 10 times its number of bins (underflow, central and overflow),
  and whenever \<^verbatim>\<open>buildFromSamples\<close> returns a histogram, its capacity is 1000.
\<close>

theorem maxNumSampleValues_defaults:
  "maxNumSampleValues (build env b) = Fin (real (10 * length (allBins (build env b))))
   \<and> (\<forall>h g'. buildFromSamples env g u samples = Inr (h, g') \<longrightarrow>
          maxNumSampleValues h = Fin 1000)"
proof (intro conjI allI impI)
  show "maxNumSampleValues (build env b) = Fin (real (10 * length (allBins (build env b))))"
    by (rule build_fields)
next
  fix h g' assume "buildFromSamples env g u samples = Inr (h, g')"
  then obtain b' where "addAll env g ((build env b')\<lparr>maxNumSampleValues := Fin 1000\<rparr>) samples = (h, g')"
    by (auto simp: buildFromSamples_def Let_def split: sum.splits prod.splits)
  then have "h = fst (addAll env g ((build env b')\<lparr>maxNumSampleValues := Fin 1000\<rparr>) samples)"
    by (metis fst_conv)
  then show "maxNumSampleValues h = Fin 1000"
    by (simp add: addAll_keeps)
qed

theorem maxNumSampleValues_not_16_counterexample:
  "maxNumSampleValues (build (demoStatistics (Fin 1)) (demoBuilder ms_smallerIsBetter))
     \<noteq> Fin (real (16 * length (allBins (build (demoStatistics (Fin 1))
                                             (demoBuilder ms_smallerIsBetter)))))"
  by (simp add: build_fields demoBuilder_eq(2) boundaries_def)

lemma buildFromSamples_one:
  "buildFromSamples env g u [Fin 3] =
     Inr (addAll env g
            ((build env \<lparr>builder_unit = u, firstBoundary = Fin 2, laterBoundaries = [Fin 3]\<rparr>)
               \<lparr>maxNumSampleValues := Fin 1000\<rparr>) [Fin 3])"
  by (simp add: buildFromSamples_def Let_def isNaN_def Range_new_def addValue_def num_seq_def
        num_sub_def Math_max_def Math_min_def addLinearBins_def NumericBuilder_new_def
        maxBinBoundary_def boundaries_def num_le_Fin num_div_def linearLoop.simps
        addBinBoundary_def)

theorem maxNumSampleValues_defaults_witness:
  "maxNumSampleValues (build (demoStatistics (Fin 1)) (demoBuilder ms_smallerIsBetter)) = Fin 40
   \<and> (\<exists>h g'. buildFromSamples (demoStatistics (Fin 1)) 0 ms_smallerIsBetter [Fin 3] = Inr (h, g')
         \<and> maxNumSampleValues h = Fin 1000)"
proof -
  obtain h g' where r: "buildFromSamples (demoStatistics (Fin 1)) 0 ms_smallerIsBetter [Fin 3]
                          = Inr (h, g')"
    using buildFromSamples_one [of "demoStatistics (Fin 1)" 0 ms_smallerIsBetter]
    by (metis surj_pair)
  from maxNumSampleValues_defaults
         [of "demoStatistics (Fin 1)" "demoBuilder ms_smallerIsBetter" 0 ms_smallerIsBetter "[Fin 3]"]
       r
  show ?thesis by (auto simp: build_fields demoBuilder_eq(2) boundaries_def)
qed

text \<open>
  Claim C3, as amended. \<^verbatim>\<open>getDifferenceSignificance(other, alpha)\<close> throws whenever the
  units of the two operands differ. With equal units it returns \<^verbatim>\<open>DONT_CARE\<close> when the
  improvement direction of the unit is don't-care, whether or not \<open>other\<close> is a
  histogram. With equal units and another direction it throws when \<open>other\<close> is not a
  histogram, and otherwise returns \<^verbatim>\<open>SIGNIFICANT\<close> exactly when the p-value of the test
  over the two reservoirs is below \<open>alpha\<close>, or below 0.05 when \<open>alpha\<close> is left out,
  and \<^verbatim>\<open>INSIGNIFICANT\<close> otherwise; here a given \<open>alpha\<close> is neither zero nor \<open>NaN\<close>.
\<close>

theorem getDifferenceSignificance_cases:
  "(unit h \<noteq> unitOf other \<longrightarrow>
      getDifferenceSignificance env h other opt_alpha
        = Inl (Error ''Cannot compare Numerics with different units''))
   \<and> (unit h = unitOf other \<and> improvementDirection (unit h) = DONT_CARE \<longrightarrow>
        getDifferenceSignificance env h other opt_alpha = Inr SIG_DONT_CARE)
   \<and> (unit h = unitOf other \<and> improvementDirection (unit h) \<noteq> DONT_CARE \<longrightarrow>
        (\<forall>s. other = AScalar s \<longrightarrow>
           getDifferenceSignificance env h other opt_alpha
             = Inl (Error ''Unable to compute a p-value''))
        \<and> (\<forall>that. other = ANumeric that \<longrightarrow>
             (opt_alpha = None \<longrightarrow>
                getDifferenceSignificance env h other opt_alpha
                  = Inr (if num_lt (mwuTest env (sampleValues h) (sampleValues that))
                              (Fin (5 / 100))
                         then SIGNIFICANT else INSIGNIFICANT))
             \<and> (\<forall>alpha. opt_alpha = Some alpha \<and> alpha \<noteq> Fin 0 \<and> alpha \<noteq> NaN \<longrightarrow>
                getDifferenceSignificance env h other opt_alpha
                  = Inr (if num_lt (mwuTest env (sampleValues h) (sampleValues that)) alpha
                         then SIGNIFICANT else INSIGNIFICANT))))"
  by (cases other) (auto simp: getDifferenceSignificance_def DEFAULT_ALPHA_def Let_def)

theorem getDifferenceSignificance_scalar_counterexample:
  "getDifferenceSignificance (demoStatistics (Fin 1))
     (build (demoStatistics (Fin 1)) (demoBuilder unitless))
     (AScalar \<lparr>scalar_unit = unitless, scalar_value = Fin 1\<rparr>) None = Inr SIG_DONT_CARE"
  by (simp add: getDifferenceSignificance_def build_fields demoBuilder_eq(2) unitless_def)

theorem getDifferenceSignificance_cases_witness:
  "getDifferenceSignificance (demoStatistics (Fin (1 / 100)))
      (build (demoStatistics (Fin (1 / 100))) (demoBuilder ms_smallerIsBetter))
      (AScalar \<lparr>scalar_unit = unitless, scalar_value = Fin 1\<rparr>) None
     = Inl (Error ''Cannot compare Numerics with different units'')
   \<and> getDifferenceSignificance (demoStatistics (Fin (1 / 100)))
      (build (demoStatistics (Fin (1 / 100))) (demoBuilder unitless))
      (AScalar \<lparr>scalar_unit = unitless, scalar_value = Fin 1\<rparr>) None
     = Inr SIG_DONT_CARE
   \<and> getDifferenceSignificance (demoStatistics (Fin (1 / 100)))
      (build (demoStatistics (Fin (1 / 100))) (demoBuilder ms_smallerIsBetter))
      (AScalar \<lparr>scalar_unit = ms_smallerIsBetter, scalar_value = Fin 1\<rparr>) None
     = Inl (Error ''Unable to compute a p-value'')
   \<and> getDifferenceSignificance (demoStatistics (Fin (1 / 100)))
      (build (demoStatistics (Fin (1 / 100))) (demoBuilder ms_smallerIsBetter))
      (ANumeric (build (demoStatistics (Fin (1 / 100))) (demoBuilder ms_smallerIsBetter))) None
     = Inr SIGNIFICANT
   \<and> getDifferenceSignificance (demoStatistics (Fin (1 / 100)))
      (build (demoStatistics (Fin (1 / 100))) (demoBuilder ms_smallerIsBetter))
      (ANumeric (build (demoStatistics (Fin (1 / 100))) (demoBuilder ms_smallerIsBetter)))
      (Some (Fin (1 / 1000)))
     = Inr INSIGNIFICANT"
proof -
  let ?env = "demoStatistics (Fin (1 / 100))"
  let ?h = "build ?env (demoBuilder ms_smallerIsBetter)"
  let ?k = "build ?env (demoBuilder unitless)"
  have u: "unit ?h = ms_smallerIsBetter" "unit ?k = unitless"
    by (simp_all add: build_fields demoBuilder_eq(2))
  have d: "ms_smallerIsBetter \<noteq> unitless" "improvementDirection unitless = DONT_CARE"
    "improvementDirection ms_smallerIsBetter \<noteq> DONT_CARE"
    by (simp_all add: ms_smallerIsBetter_def unitless_def)
  have p: "mwuTest ?env (sampleValues ?h) (sampleValues ?h) = Fin (1 / 100)"
    by (simp add: demoStatistics_def)
  note t = getDifferenceSignificance_cases
  from t [of ?h "AScalar \<lparr>scalar_unit = unitless, scalar_value = Fin 1\<rparr>" ?env None]
  have 1: "getDifferenceSignificance ?env ?h
             (AScalar \<lparr>scalar_unit = unitless, scalar_value = Fin 1\<rparr>) None
           = Inl (Error ''Cannot compare Numerics with different units'')"
    using u d by simp
  from t [of ?k "AScalar \<lparr>scalar_unit = unitless, scalar_value = Fin 1\<rparr>" ?env None]
  have 2: "getDifferenceSignificance ?env ?k
             (AScalar \<lparr>scalar_unit = unitless, scalar_value = Fin 1\<rparr>) None
           = Inr SIG_DONT_CARE"
    using u d by simp
  from t [of ?h "AScalar \<lparr>scalar_unit = ms_smallerIsBetter, scalar_value = Fin 1\<rparr>" ?env None]
  have 3: "getDifferenceSignificance ?env ?h
             (AScalar \<lparr>scalar_unit = ms_smallerIsBetter, scalar_value = Fin 1\<rparr>) None
           = Inl (Error ''Unable to compute a p-value'')"
    using u d by simp
  from t [of ?h "ANumeric ?h" ?env None]
  have 4: "getDifferenceSignificance ?env ?h (ANumeric ?h) None = Inr SIGNIFICANT"
    using u d p by simp
  from t [of ?h "ANumeric ?h" ?env "Some (Fin (1 / 1000))"]
  have 5: "getDifferenceSignificance ?env ?h (ANumeric ?h) (Some (Fin (1 / 1000)))
             = Inr INSIGNIFICANT"
    using u d p by simp
  from 1 2 3 4 5 show ?thesis by blast
qed

text \<open>
  Claim C10. With equal units, an improvement direction other than don't-care and a
  histogram as \<open>other\<close>, an explicit \<open>alpha\<close> of 0 is replaced by the default: the
  result is \<^verbatim>\<open>SIGNIFICANT\<close> exactly when the p-value is below 0.05, so a p-value below
  0.05 is still reported significant.
\<close>

theorem zero_alpha_uses_default:
  assumes "unit h = unit that" and "improvementDirection (unit h) \<noteq> DONT_CARE"
  shows "getDifferenceSignificance env h (ANumeric that) (Some (Fin 0))
           = Inr (if num_lt (mwuTest env (sampleValues h) (sampleValues that)) (Fin (5 / 100))
                  then SIGNIFICANT else INSIGNIFICANT)"
  using assms by (simp add: getDifferenceSignificance_def DEFAULT_ALPHA_def)

theorem zero_alpha_uses_default_witness:
  "unit (build (demoStatistics (Fin (1 / 100))) (demoBuilder ms_smallerIsBetter))
     = unit (build (demoStatistics (Fin (1 / 100))) (demoBuilder ms_smallerIsBetter))
   \<and> improvementDirection
       (unit (build (demoStatistics (Fin (1 / 100))) (demoBuilder ms_smallerIsBetter)))
       = SMALLER_IS_BETTER
   \<and> getDifferenceSignificance (demoStatistics (Fin (1 / 100)))
       (build (demoStatistics (Fin (1 / 100))) (demoBuilder ms_smallerIsBetter))
       (ANumeric (build (demoStatistics (Fin (1 / 100))) (demoBuilder ms_smallerIsBetter)))
       (Some (Fin 0))
     = Inr SIGNIFICANT"
proof -
  let ?env = "demoStatistics (Fin (1 / 100))"
  let ?h = "build ?env (demoBuilder ms_smallerIsBetter)"
  have d: "improvementDirection (unit ?h) = SMALLER_IS_BETTER"
    by (simp add: build_fields demoBuilder_eq(2) ms_smallerIsBetter_def)
  then have d': "improvementDirection (unit ?h) \<noteq> DONT_CARE" by simp
  have p: "mwuTest ?env (sampleValues ?h) (sampleValues ?h) = Fin (1 / 100)"
    by (simp add: demoStatistics_def)
  from zero_alpha_uses_default [OF refl d', of ?env] p d
  show ?thesis by simp
qed

text \<open>
  Claim C8. A scalar serializes \<open>+Infinity\<close>, \<open>-Infinity\<close> and \<open>NaN\<close> as the strings
  \<^verbatim>\<open>"Infinity"\<close>, \<^verbatim>\<open>"-Infinity"\<close> and \<^verbatim>\<open>"NaN"\<close> and every finite value as the number
  itself, and decoding what it serializes to gives back the same scalar, value and unit,
  for a unit whose token the table of units maps back to it.
\<close>

theorem scalar_round_trip:
  assumes "fromJSON (asJSON (scalar_unit s)) = Some (scalar_unit s)"
  shows "dict_value (ScalarNumeric_asDict s) =
           (case scalar_value s of
              PInf \<Rightarrow> Str ''Infinity''
            | NInf \<Rightarrow> Str ''-Infinity''
            | NaN \<Rightarrow> Str ''NaN''
            | Fin x \<Rightarrow> Num (Fin x))
         \<and> dict_type (ScalarNumeric_asDict s) = ''scalar''
         \<and> ScalarNumeric_fromDict fromJSON (ScalarNumeric_asDict s) = Inr s"
  using assms
  by (cases "scalar_value s")
     (simp_all add: ScalarNumeric_asDict_def ScalarNumeric_fromDict_def ScalarNumeric_new_def
        isNaN_def)

theorem scalar_round_trip_witness:
  "demoFromJSON (asJSON (scalar_unit \<lparr>scalar_unit = ms_smallerIsBetter, scalar_value = NInf\<rparr>))
     = Some (scalar_unit \<lparr>scalar_unit = ms_smallerIsBetter, scalar_value = NInf\<rparr>)
   \<and> dict_value (ScalarNumeric_asDict \<lparr>scalar_unit = ms_smallerIsBetter, scalar_value = NInf\<rparr>)
       = Str ''-Infinity''
   \<and> ScalarNumeric_fromDict demoFromJSON
        (ScalarNumeric_asDict \<lparr>scalar_unit = ms_smallerIsBetter, scalar_value = NInf\<rparr>)
       = Inr \<lparr>scalar_unit = ms_smallerIsBetter, scalar_value = NInf\<rparr>"
proof -
  have a: "demoFromJSON (asJSON (scalar_unit \<lparr>scalar_unit = ms_smallerIsBetter, scalar_value = NInf\<rparr>))
     = Some (scalar_unit \<lparr>scalar_unit = ms_smallerIsBetter, scalar_value = NInf\<rparr>)"
    by (simp add: demoFromJSON_def asJSON_def ms_smallerIsBetter_def)
  from scalar_round_trip
         [of demoFromJSON "\<lparr>scalar_unit = ms_smallerIsBetter, scalar_value = NInf\<rparr>", OF a] a
  show ?thesis by simp
qed

subsection \<open>Percentiles, empty sample sets and compatible histograms on concrete inputs\<close>





text \<open>
  Claim C9. \<^verbatim>\<open>buildFromSamples\<close> of an empty list of samples throws: the number of bins
  is \<open>\<lceil>sqrt 0\<rceil> = 0\<close> and \<^verbatim>\<open>addLinearBins\<close> rejects it. So does \<^verbatim>\<open>merge\<close> when it takes
  the path through the samples (equal units, not two histograms that can be added
  exactly) and the two operands hold no sample between them.
\<close>

theorem buildFromSamples_empty_throws:
  "buildFromSamples env g u [] = Inl (Error ''Bin count must be positive'')
   \<and> (unitOf this = unitOf other \<and> \<not> isAddable this other
        \<and> sampleValuesInto this @ sampleValuesInto other = [] \<longrightarrow>
      merge env c fromJSON g this other = Inl (Error ''Bin count must be positive''))"
proof -
  have e: "\<And>v. buildFromSamples env g v [] = Inl (Error ''Bin count must be positive'')"
    by (simp add: buildFromSamples_def addLinearBins_def)
  show ?thesis
  proof (intro conjI impI)
    show "buildFromSamples env g u [] = Inl (Error ''Bin count must be positive'')" by (rule e)
  next
    assume a: "unitOf this = unitOf other \<and> \<not> isAddable this other
        \<and> sampleValuesInto this @ sampleValuesInto other = []"
    then obtain h that where t: "this = ANumeric h" "other = ANumeric that"
      by (cases this; cases other) auto
    with a have "\<not> canAddNumeric h that" by (simp add: isAddable_def)
    with a t show "merge env c fromJSON g this other = Inl (Error ''Bin count must be positive'')"
      by (simp add: merge_def e)
  qed
qed

lemma wide_length: "length (allBins (build env (wideBuilder u))) = 3"
  by (simp add: build_fields wideBuilder_eq(2) boundaries_def)

lemma demo_wide_incompatible:
  "\<not> canAddNumeric (demoHistogram env g u vs) (build env' (wideBuilder u'))"
  by (simp add: canAddNumeric_iff demoHistogram_layout wide_length)

lemma demoHistogram_Nil: "demoHistogram env g u [] = build env (demoBuilder u)"
  by (simp add: demoHistogram_def addAll_Nil)

theorem buildFromSamples_empty_throws_witness:
  "unitOf (ANumeric (build (demoStatistics (Fin 1)) (demoBuilder ms_smallerIsBetter)))
     = unitOf (ANumeric (build (demoStatistics (Fin 1)) (wideBuilder ms_smallerIsBetter)))
   \<and> \<not> isAddable (ANumeric (build (demoStatistics (Fin 1)) (demoBuilder ms_smallerIsBetter)))
         (ANumeric (build (demoStatistics (Fin 1)) (wideBuilder ms_smallerIsBetter)))
   \<and> sampleValuesInto (ANumeric (build (demoStatistics (Fin 1)) (demoBuilder ms_smallerIsBetter)))
       @ sampleValuesInto (ANumeric (build (demoStatistics (Fin 1)) (wideBuilder ms_smallerIsBetter)))
       = []
   \<and> merge (demoStatistics (Fin 1)) demoCodec demoFromJSON 0
       (ANumeric (build (demoStatistics (Fin 1)) (demoBuilder ms_smallerIsBetter)))
       (ANumeric (build (demoStatistics (Fin 1)) (wideBuilder ms_smallerIsBetter)))
     = Inl (Error ''Bin count must be positive'')"
proof -
  let ?env = "demoStatistics (Fin 1)"
  let ?a = "ANumeric (build ?env (demoBuilder ms_smallerIsBetter))"
  let ?b = "ANumeric (build ?env (wideBuilder ms_smallerIsBetter))"
  have u: "unitOf ?a = unitOf ?b"
    by (simp add: build_fields demoBuilder_eq(2) wideBuilder_eq(2))
  have n: "\<not> isAddable ?a ?b"
    using demo_wide_incompatible [of ?env 0 ms_smallerIsBetter "[]" ?env ms_smallerIsBetter]
    by (simp add: isAddable_def demoHistogram_Nil)
  have s: "sampleValuesInto ?a @ sampleValuesInto ?b = []"
    by (simp add: build_fields)
  from buildFromSamples_empty_throws [of ?env 0 ms_smallerIsBetter ?a ?b demoCodec demoFromJSON]
    u n s
  show ?thesis by simp
qed

theorem addNumeric_all_or_nothing_witness:
  "canAddNumeric (demoHistogram (demoStatistics (Fin 1)) 0 ms_smallerIsBetter [Fin 7])
      (demoHistogram (demoStatistics (Fin 1)) 0 ms_smallerIsBetter [Fin 2])
   \<and> (\<exists>h' g'. addNumeric (demoStatistics (Fin 1)) 0
                 (demoHistogram (demoStatistics (Fin 1)) 0 ms_smallerIsBetter [Fin 7])
                 (demoHistogram (demoStatistics (Fin 1)) 0 ms_smallerIsBetter [Fin 2])
               = Inr (h', g')
         \<and> length (allBins h') = 4)
   \<and> \<not> canAddNumeric (demoHistogram (demoStatistics (Fin 1)) 0 ms_smallerIsBetter [Fin 7])
         (build (demoStatistics (Fin 1)) (wideBuilder ms_smallerIsBetter))
   \<and> addNumeric (demoStatistics (Fin 1)) 0
        (demoHistogram (demoStatistics (Fin 1)) 0 ms_smallerIsBetter [Fin 7])
        (build (demoStatistics (Fin 1)) (wideBuilder ms_smallerIsBetter))
      = Inl (Error ''Merging incompatible Numerics.'',
             demoHistogram (demoStatistics (Fin 1)) 0 ms_smallerIsBetter [Fin 7], 0)"
proof -
  let ?env = "demoStatistics (Fin 1)"
  let ?a = "demoHistogram ?env 0 ms_smallerIsBetter [Fin 7]"
  let ?b = "demoHistogram ?env 0 ms_smallerIsBetter [Fin 2]"
  let ?c = "build ?env (wideBuilder ms_smallerIsBetter)"
  have can: "canAddNumeric ?a ?b" by (rule canAddNumeric_demo)
  have cannot: "\<not> canAddNumeric ?a ?c" by (rule demo_wide_incompatible)
  from addNumeric_all_or_nothing [of ?a ?b ?env 0] can
  have 1: "\<exists>h' g'. addNumeric ?env 0 ?a ?b = Inr (h', g') \<and> length (allBins h') = 4"
    by (auto simp: demoHistogram_layout)
  from addNumeric_all_or_nothing [of ?a ?c ?env 0] cannot
  have 2: "addNumeric ?env 0 ?a ?c = Inl (Error ''Merging incompatible Numerics.'', ?a, 0)"
    by blast
  from can cannot 1 2 show ?thesis by blast
qed

subsection \<open>Deserialized histograms and builders with finite boundaries\<close>

lemma Numeric_fromDict_maxCount:
  assumes "Numeric_fromDict env c fromJSON d = Inr n"
  shows "maxCount n = Max (set (map count (allBins n)))"
proof -
  from assms obtain u r ub cbs ob where
    m: "maxCount n = maxCount (Numeric_new env u r ub cbs ob)"
    and a: "allBins n = allBins (Numeric_new env u r ub cbs ob)"
    unfolding Numeric_fromDict_def Let_def
    by (fastforce simp: allBins_def split: sum.splits option.splits)
  show ?thesis unfolding m a by (rule Numeric_new_maxCount)
qed

lemma NumericBuilder_new_finite: "boundaries (NumericBuilder_new u (Fin x)) = map Fin [x]"
  by (simp add: NumericBuilder_new_def boundaries_def)

lemma addBinBoundary_finite:
  assumes b: "boundaries b = map Fin rs" and s: "sorted_wrt (<) rs"
    and r: "addBinBoundary b (Fin x) = Inr b'"
  shows "boundaries b' = map Fin (rs @ [x]) \<and> sorted_wrt (<) (rs @ [x])"
proof -
  have ne: "rs \<noteq> []" using b by (auto simp: boundaries_def)
  have l: "maxBinBoundary b = Fin (last rs)"
    using ne by (simp add: maxBinBoundary_def b last_map)
  from r have lt: "last rs < x" and b': "b' = b\<lparr>laterBoundaries := laterBoundaries b @ [x']\<rparr>"
    if "x' = Fin x" for x'
    using that by (auto simp: addBinBoundary_def l num_le_Fin split: if_splits)
  have "\<forall>y\<in>set rs. y < x"
  proof
    fix y assume "y \<in> set rs"
    then obtain k where k: "k < length rs" "rs ! k = y" by (auto simp: in_set_conv_nth)
    have "sorted rs" using s by (rule strict_sorted_imp_sorted)
    then have "rs ! k \<le> rs ! (length rs - 1)" using k ne by (intro sorted_nth_mono) simp_all
    then show "y < x" using k lt [OF refl] ne by (simp add: last_conv_nth)
  qed
  then have "sorted_wrt (<) (rs @ [x])" using s by (simp add: sorted_wrt_append)
  moreover have "boundaries b' = map Fin (rs @ [x])"
    using b b' [OF refl] by (simp add: boundaries_def)
  ultimately show ?thesis by simp
qed

lemma linearLoop_finite:
  "boundaries b = map Fin rs \<Longrightarrow> sorted_wrt (<) rs \<Longrightarrow>
   linearLoop b (Fin c) (Fin w) n i = Inr b' \<Longrightarrow>
   \<exists>rs'. boundaries b' = map Fin rs' \<and> sorted_wrt (<) rs'"
proof (induction b "Fin c" "Fin w" n i arbitrary: rs rule: linearLoop.induct)
  case (1 b n i)
  show ?case
  proof (cases "i < n")
    case False
    with "1.prems" show ?thesis by (subst (asm) linearLoop.simps) auto
  next
    case True
    let ?x = "c + of_int i * w"
    have v: "num_add (Fin c) (num_mul (Fin (of_int i)) (Fin w)) = Fin ?x"
      by (simp add: num_mul_def)
    from "1.prems"(3) True obtain b1 where
      b1: "addBinBoundary b (Fin ?x) = Inr b1"
      and rest: "linearLoop b1 (Fin c) (Fin w) n (i + 1) = Inr b'"
      by (subst (asm) linearLoop.simps) (auto simp: v split: sum.splits)
    from addBinBoundary_finite [OF "1.prems"(1,2) b1]
    have f: "boundaries b1 = map Fin (rs @ [?x])" "sorted_wrt (<) (rs @ [?x])" by simp_all
    from "1.hyps" [OF True b1 [folded v] f rest] show ?thesis .
  qed
qed

lemma addLinearBins_finite:
  assumes b: "boundaries b = map Fin rs" and s: "sorted_wrt (<) rs"
    and r: "addLinearBins b (Fin x) n = Inr b'"
  shows "\<exists>rs'. boundaries b' = map Fin rs' \<and> sorted_wrt (<) rs'"
proof -
  have ne: "rs \<noteq> []" using b by (auto simp: boundaries_def)
  have l: "maxBinBoundary b = Fin (last rs)"
    using ne by (simp add: maxBinBoundary_def b last_map)
  have n: "real_of_int n \<noteq> 0" using r by (auto simp: addLinearBins_def split: if_splits)
  have w: "num_div (num_sub (Fin x) (Fin (last rs))) (Fin (of_int n))
             = Fin ((x - last rs) / of_int n)"
    using n by (simp add: num_div_def num_sub_def)
  from r obtain b1 where
    b1: "linearLoop b (Fin (last rs)) (Fin ((x - last rs) / of_int n)) n 1 = Inr b1"
    and fin: "addBinBoundary b1 (Fin x) = Inr b'"
    by (auto simp: addLinearBins_def Let_def l w split: if_splits sum.splits)
  from linearLoop_finite [OF b s b1] obtain rs1 where
    "boundaries b1 = map Fin rs1" "sorted_wrt (<) rs1" by blast
  from addBinBoundary_finite [OF this fin] show ?thesis by blast
qed

end
